theory Spec2Isabelle
  imports Main "HOL-Library.Word"
begin

section \<open>Errors\<close>

text \<open>
  A Go \<^verbatim>\<open>error\<close> is modelled by its message. A function of the model that can also
  panic (a nil dereference, an index out of range) returns a \<open>failure\<close>.
\<close>

datatype failure = Error string | Panic string

section \<open>Package hcsoci: network namespaces (internal/hcsoci/network.go)\<close>

text \<open>
  The network control plane (package hns) and the utility VM's network methods
  (\<^verbatim>\<open>AddNetNS\<close>, \<^verbatim>\<open>AddEndpointsToNS\<close>, \<^verbatim>\<open>RemoveNetNS\<close>) are outside the source files.
  Every call to them is recorded in a call history, and what a call returns is a
  parameter that may depend on the history so far.
\<close>

datatype 'ep call =
    HnsCreateNamespace
  | HnsAddNamespaceEndpoint string string
  | HnsRemoveNamespaceEndpoint string string
  | HnsRemoveNamespace string
  | HnsGetNamespaceEndpoints string
  | HnsGetHNSEndpointByID string
  | UvmAddNetNS string
  | UvmAddEndpointsToNS string "'ep list"
  | UvmRemoveNetNS string

record 'ep hcsoci_env =
  hns_CreateNamespace :: "'ep call list \<Rightarrow> string + string"
  hns_AddNamespaceEndpoint :: "'ep call list \<Rightarrow> string \<Rightarrow> string \<Rightarrow> string option"
  hns_GetNamespaceEndpoints :: "'ep call list \<Rightarrow> string \<Rightarrow> string + string list"
  hns_GetHNSEndpointByID :: "'ep call list \<Rightarrow> string \<Rightarrow> string + 'ep"
  uvm_AddNetNS :: "'ep call list \<Rightarrow> string \<Rightarrow> string option"
  uvm_AddEndpointsToNS :: "'ep call list \<Rightarrow> string \<Rightarrow> 'ep list \<Rightarrow> string option"
  uvm_RemoveNetNS :: "'ep call list \<Rightarrow> string \<Rightarrow> string option"

text \<open>
  \<^verbatim>\<open>coi.Spec.Windows.Network.EndpointList\<close>: \<open>None\<close> when a pointer on that path is nil
  (reading the list then panics).
\<close>

record createOptionsInternal =
  coi_ID :: string
  EndpointList :: "string list option"

datatype resource =
    NetworkEndpoints (EndpointIDs: "string list") (Namespace: string)
  | OtherResource string

record Resources =
  netNS :: string
  createdNetNS :: bool
  resources :: "resource list"

text \<open>
  The loop of \<^verbatim>\<open>createNetworkNamespace\<close>: \<open>endpoints\<close> is the slice built so far,
  \<open>tr\<close> the call history.
\<close>

fun addEndpoints ::
  "'ep hcsoci_env \<Rightarrow> string \<Rightarrow> string list \<Rightarrow> string list \<Rightarrow> 'ep call list
     \<Rightarrow> (string + string list) \<times> 'ep call list" where
  "addEndpoints env netID [] endpoints tr = (Inr endpoints, tr)"
| "addEndpoints env netID (endpointID # rest) endpoints tr =
     (case hns_AddNamespaceEndpoint env tr netID endpointID of
        Some err \<Rightarrow> (Inl err, tr @ [HnsAddNamespaceEndpoint netID endpointID])
      | None \<Rightarrow>
          addEndpoints env netID rest (endpoints @ [endpointID])
            (tr @ [HnsAddNamespaceEndpoint netID endpointID]))"

definition createNetworkNamespace ::
  "'ep hcsoci_env \<Rightarrow> createOptionsInternal \<Rightarrow> Resources \<Rightarrow> 'ep call list
     \<Rightarrow> failure option \<times> Resources \<times> 'ep call list" where
  "createNetworkNamespace env coi res tr =
     (case hns_CreateNamespace env tr of
        Inl err \<Rightarrow> (Some (Error err), res, tr @ [HnsCreateNamespace])
      | Inr netID \<Rightarrow>
          let res1 = res\<lparr>netNS := netID, createdNetNS := True\<rparr>;
              tr1 = tr @ [HnsCreateNamespace]
          in (case EndpointList coi of
                None \<Rightarrow> (Some (Panic ''nil pointer dereference''), res1, tr1)
              | Some endpointList \<Rightarrow>
                  (case addEndpoints env netID endpointList [] tr1 of
                     (Inl err, tr2) \<Rightarrow> (Some (Error err), res1, tr2)
                   | (Inr endpoints, tr2) \<Rightarrow>
                       (None,
                        res1\<lparr>resources := resources res1 @ [NetworkEndpoints endpoints netID]\<rparr>,
                        tr2))))"

fun resolveEndpoints ::
  "'ep hcsoci_env \<Rightarrow> string list \<Rightarrow> 'ep list \<Rightarrow> 'ep call list
     \<Rightarrow> (string + 'ep list) \<times> 'ep call list" where
  "resolveEndpoints env [] endpoints tr = (Inr endpoints, tr)"
| "resolveEndpoints env (i # ids) endpoints tr =
     (case hns_GetHNSEndpointByID env tr i of
        Inl err \<Rightarrow> (Inl err, tr @ [HnsGetHNSEndpointByID i])
      | Inr endpoint \<Rightarrow>
          resolveEndpoints env ids (endpoints @ [endpoint]) (tr @ [HnsGetHNSEndpointByID i]))"

definition GetNamespaceEndpoints ::
  "'ep hcsoci_env \<Rightarrow> string \<Rightarrow> 'ep call list \<Rightarrow> (string + 'ep list) \<times> 'ep call list" where
  "GetNamespaceEndpoints env nsID tr =
     (case hns_GetNamespaceEndpoints env tr nsID of
        Inl err \<Rightarrow> (Inl err, tr @ [HnsGetNamespaceEndpoints nsID])
      | Inr ids \<Rightarrow> resolveEndpoints env ids [] (tr @ [HnsGetNamespaceEndpoints nsID]))"

definition SetupNetworkNamespace ::
  "'ep hcsoci_env \<Rightarrow> string \<Rightarrow> 'ep call list \<Rightarrow> string option \<times> 'ep call list" where
  "SetupNetworkNamespace env nsid tr =
     (case GetNamespaceEndpoints env nsid tr of
        (Inl err, tr1) \<Rightarrow> (Some err, tr1)
      | (Inr endpoints, tr1) \<Rightarrow>
          (case uvm_AddNetNS env tr1 nsid of
             Some err \<Rightarrow> (Some err, tr1 @ [UvmAddNetNS nsid])
           | None \<Rightarrow>
               let tr2 = tr1 @ [UvmAddNetNS nsid] in
               (case uvm_AddEndpointsToNS env tr2 nsid endpoints of
                  Some err \<Rightarrow>
                    \<comment> \<open>best effort clean up; what RemoveNetNS returns is dropped\<close>
                    (let dropped = uvm_RemoveNetNS env (tr2 @ [UvmAddEndpointsToNS nsid endpoints]) nsid
                     in (Some err,
                         tr2 @ [UvmAddEndpointsToNS nsid endpoints, UvmRemoveNetNS nsid]))
                | None \<Rightarrow> (None, tr2 @ [UvmAddEndpointsToNS nsid endpoints]))))"

text \<open>An example control plane: every call succeeds, except binding endpoint \<open>B\<close>
  and attaching endpoints into a VM, which fail; removing a namespace fails too.\<close>

definition env_net :: "string hcsoci_env" where
  "env_net =
     \<lparr> hns_CreateNamespace = (\<lambda>tr. Inr ''ns1''),
       hns_AddNamespaceEndpoint = (\<lambda>tr ns ep. if ep = ''B'' then Some ''bind failed'' else None),
       hns_GetNamespaceEndpoints = (\<lambda>tr ns. Inr [''A'', ''C'']),
       hns_GetHNSEndpointByID = (\<lambda>tr i. Inr i),
       uvm_AddNetNS = (\<lambda>tr ns. None),
       uvm_AddEndpointsToNS = (\<lambda>tr ns eps. Some ''attach failed''),
       uvm_RemoveNetNS = (\<lambda>tr ns. Some ''remove failed'') \<rparr>"

section \<open>JSON documents and the override merge (package mergemaps)\<close>

datatype json =
    JNull
  | JBool bool
  | JNum int
  | JStr string
  | JArr "json list"
  | JObj "(string \<times> json) list"

text \<open>\<open>setField k v fs\<close> stores \<open>v\<close> under key \<open>k\<close>: in place when the object has the
  key, as a new last field otherwise.\<close>

fun setField :: "string \<Rightarrow> json \<Rightarrow> (string \<times> json) list \<Rightarrow> (string \<times> json) list" where
  "setField k v [] = [(k, v)]"
| "setField k v ((k', v') # fs) =
     (if k' = k then (k, v) # fs else (k', v') # setField k v fs)"

text \<open>
  Modelled from the spec: \<^verbatim>\<open>mergemaps.Merge\<close> is outside the source files. The spec:
  the built document is merged with the caller's raw override fragment, the fragment
  wins on overlapping leaf keys, keys only the fragment has are added. \<open>Merge d f\<close>
  merges fragment \<open>f\<close> into document \<open>d\<close>: two objects are merged key by key, and
  anywhere else the fragment's value replaces the document's.
\<close>

fun Merge :: "json \<Rightarrow> json \<Rightarrow> json"
  and MergeFields :: "(string \<times> json) list \<Rightarrow> (string \<times> json) list \<Rightarrow> (string \<times> json) list" where
  "Merge (JObj d) (JObj f) = JObj (MergeFields d f)"
| "Merge d f = f"
| "MergeFields d [] = d"
| "MergeFields d ((k, w) # f) =
     MergeFields (setField k (case map_of d k of None \<Rightarrow> w | Some v \<Rightarrow> Merge v w) d) f"

text \<open>The value at a path of keys, when every key on the path is there.\<close>

fun jsonGet :: "string list \<Rightarrow> json \<Rightarrow> json option" where
  "jsonGet [] j = Some j"
| "jsonGet (k # ks) (JObj fs) = (case map_of fs k of None \<Rightarrow> None | Some v \<Rightarrow> jsonGet ks v)"
| "jsonGet (k # ks) j = None"

text \<open>
  \<open>leavesPath p f\<close>: the fragment \<open>f\<close> holds nothing at the path \<open>p\<close> of keys, and
  whatever it holds on the way there is an object. Merging such a fragment leaves the
  document's value at \<open>p\<close> as it is.
\<close>

fun leavesPath :: "string list \<Rightarrow> json \<Rightarrow> bool"
  and leavesPathFields :: "string \<Rightarrow> string list \<Rightarrow> (string \<times> json) list \<Rightarrow> bool" where
  "leavesPath [] f = False"
| "leavesPath (k # ks) (JObj fs) = leavesPathFields k ks fs"
| "leavesPath (k # ks) f = False"
| "leavesPathFields k ks [] = True"
| "leavesPathFields k ks ((k', v) # fs) =
     ((if k' = k then leavesPath ks v else True) \<and> leavesPathFields k ks fs)"

text \<open>
  \<open>objectsAlong p f\<close>: whatever the fragment \<open>f\<close> holds on the path \<open>p\<close> of keys, up
  to and including its end, is an object. Merging such a fragment into a document that
  has an object at \<open>p\<close> leaves an object there.
\<close>

fun objectsAlong :: "string list \<Rightarrow> json \<Rightarrow> bool"
  and objectsAlongFields :: "string \<Rightarrow> string list \<Rightarrow> (string \<times> json) list \<Rightarrow> bool" where
  "objectsAlong [] (JObj fs) = True"
| "objectsAlong (k # ks) (JObj fs) = objectsAlongFields k ks fs"
| "objectsAlong p f = False"
| "objectsAlongFields k ks [] = True"
| "objectsAlongFields k ks ((k', v) # fs) =
     ((if k' = k then objectsAlong ks v else True) \<and> objectsAlongFields k ks fs)"

text \<open>An object, whatever its fields.\<close>

fun isObject :: "json option \<Rightarrow> bool" where
  "isObject (Some (JObj fs)) = True"
| "isObject j = False"

section \<open>Package uvm: creating a Windows utility VM (internal/uvm/create_wcow.go)\<close>

subsection \<open>The configuration document (package hcsschema)\<close>

text \<open>
  The schema's type declarations are outside the source files; each record has the
  fields \<^verbatim>\<open>create_wcow.go\<close> sets. Go's \<^verbatim>\<open>int32\<close> is a 32-bit word read as signed
  (\<open><s\<close>), \<^verbatim>\<open>uint64\<close> a 64-bit word. A pointer that \<^verbatim>\<open>prepareConfigDoc\<close> always sets is a
  plain field; a pointer it sets under a condition is an \<open>option\<close>. A Go map is an
  association list. A field whose name is already taken (or, as \<^verbatim>\<open>Type_\<close>, is not a
  name here) carries its struct's name in front.
\<close>

type_synonym int32 = "32 word"
type_synonym uint64 = "64 word"

definition backslash :: char where
  "backslash = CHR 0x5C"

record Version =
  Major :: int32
  Minor :: int32

record UefiBootEntry =
  DevicePath :: string
  DeviceType :: string

record Uefi =
  BootThis :: UefiBootEntry

record Chipset =
  Uefi :: Uefi

record Memory2 =
  SizeInMB :: uint64
  Memory_AllowOvercommit :: bool
  EnableHotHint :: bool
  Memory_EnableDeferredCommit :: bool
  Memory_LowMMIOGapInMB :: uint64
  Memory_HighMMIOBaseInMB :: uint64
  Memory_HighMMIOGapInMB :: uint64

record Processor2 =
  Count :: int32
  Limit :: int32
  Weight :: int32

record Topology =
  Memory :: Memory2
  Processor :: Processor2

record HvSocketSystemConfig =
  DefaultBindSecurityDescriptor :: string

record HvSocket2 =
  HvSocketConfig :: HvSocketSystemConfig

record VirtualSmbShareOptions =
  ReadOnly :: bool
  TakeBackupPrivilege :: bool
  OtherOptions :: "string list"

record VirtualSmbShare =
  Share_Name :: string
  Share_Path :: string
  Options :: VirtualSmbShareOptions

record VirtualSmb =
  DirectFileMappingInMB :: int32
  Shares :: "VirtualSmbShare list"

record Attachment =
  Path :: string
  Attachment_Type :: string

record Scsi =
  Attachments :: "(string \<times> Attachment) list"

record Devices =
  HvSocket :: HvSocket2
  VirtualSmb :: VirtualSmb
  Scsi :: "(string \<times> Scsi) list"

record GuestConnection =
  GuestConnection_unused :: unit

record StorageQoS =
  IopsMaximum :: int32
  BandwidthMaximum :: int32

record RestoreState =
  TemplateSystemId :: string

record VirtualMachine =
  StopOnReset :: bool
  Chipset :: Chipset
  ComputeTopology :: Topology
  Devices :: Devices
  GuestConnection :: "GuestConnection option"
  StorageQoS :: "StorageQoS option"
  RestoreState :: "RestoreState option"

record ComputeSystem =
  doc_Owner :: string
  SchemaVersion :: Version
  ShouldTerminateOnLastHandleClosed :: bool
  VirtualMachine :: VirtualMachine

definition SchemaV21 :: Version where
  "SchemaV21 = \<lparr>Major = 2, Minor = 1\<rparr>"

record ProcessorTopology =
  LogicalProcessorCount :: "32 word"

subsection \<open>The JSON form of the document\<close>

text \<open>
  Modelled from the spec: turning the document into JSON happens inside
  \<^verbatim>\<open>mergemaps.MergeJSON\<close>, outside the source files. The spec (section 6) lists the
  document's content; each field is written under its Go name (\<^verbatim>\<open>Type_\<close> as \<open>Type\<close>),
  an optional block only when it is there, and the SCSI map only when it has an entry.
\<close>

definition marshalOptions :: "VirtualSmbShareOptions \<Rightarrow> json" where
  "marshalOptions v =
     JObj ([(''ReadOnly'', JBool (ReadOnly v)),
            (''TakeBackupPrivilege'', JBool (TakeBackupPrivilege v))]
           @ map (\<lambda>n. (n, JBool True)) (OtherOptions v))"

definition marshalShare :: "VirtualSmbShare \<Rightarrow> json" where
  "marshalShare sh =
     JObj [(''Name'', JStr (Share_Name sh)), (''Path'', JStr (Share_Path sh)),
           (''Options'', marshalOptions (Options sh))]"

definition marshalAttachment :: "Attachment \<Rightarrow> json" where
  "marshalAttachment a = JObj [(''Path'', JStr (Path a)), (''Type'', JStr (Attachment_Type a))]"

definition marshalScsi :: "Scsi \<Rightarrow> json" where
  "marshalScsi c =
     JObj [(''Attachments'', JObj (map (\<lambda>(slot, a). (slot, marshalAttachment a)) (Attachments c)))]"

definition marshalMemory :: "Memory2 \<Rightarrow> json" where
  "marshalMemory m =
     JObj [(''SizeInMB'', JNum (uint (SizeInMB m))),
           (''AllowOvercommit'', JBool (Memory_AllowOvercommit m)),
           (''EnableHotHint'', JBool (EnableHotHint m)),
           (''EnableDeferredCommit'', JBool (Memory_EnableDeferredCommit m)),
           (''LowMmioGapInMB'', JNum (uint (Memory_LowMMIOGapInMB m))),
           (''HighMmioBaseInMB'', JNum (uint (Memory_HighMMIOBaseInMB m))),
           (''HighMmioGapInMB'', JNum (uint (Memory_HighMMIOGapInMB m)))]"

definition marshalProcessor :: "Processor2 \<Rightarrow> json" where
  "marshalProcessor p =
     JObj [(''Count'', JNum (sint (Count p))), (''Limit'', JNum (sint (Limit p))),
           (''Weight'', JNum (sint (Weight p)))]"

definition marshalDevices :: "Devices \<Rightarrow> json" where
  "marshalDevices d =
     JObj ([(''HvSocket'',
              JObj [(''HvSocketConfig'',
                JObj [(''DefaultBindSecurityDescriptor'',
                  JStr (DefaultBindSecurityDescriptor (HvSocketConfig (HvSocket d))))])]),
            (''VirtualSmb'',
              JObj [(''DirectFileMappingInMB'', JNum (sint (DirectFileMappingInMB (VirtualSmb d)))),
                    (''Shares'', JArr (map marshalShare (Shares (VirtualSmb d))))])]
           @ (if Scsi d = [] then []
              else [(''Scsi'', JObj (map (\<lambda>(ctrl, c). (ctrl, marshalScsi c)) (Scsi d)))]))"

definition marshalVirtualMachine :: "VirtualMachine \<Rightarrow> json" where
  "marshalVirtualMachine v =
     JObj ([(''StopOnReset'', JBool (StopOnReset v)),
            (''Chipset'',
              JObj [(''Uefi'',
                JObj [(''BootThis'',
                  JObj [(''DevicePath'', JStr (DevicePath (BootThis (Uefi (Chipset v))))),
                        (''DeviceType'', JStr (DeviceType (BootThis (Uefi (Chipset v)))))])])]),
            (''ComputeTopology'',
              JObj [(''Memory'', marshalMemory (Memory (ComputeTopology v))),
                    (''Processor'', marshalProcessor (Processor (ComputeTopology v)))]),
            (''Devices'', marshalDevices (Devices v))]
           @ (case GuestConnection v of None \<Rightarrow> [] | Some g \<Rightarrow> [(''GuestConnection'', JObj [])])
           @ (case StorageQoS v of
                None \<Rightarrow> []
              | Some q \<Rightarrow>
                  [(''StorageQoS'',
                    JObj [(''IopsMaximum'', JNum (sint (IopsMaximum q))),
                          (''BandwidthMaximum'', JNum (sint (BandwidthMaximum q)))])])
           @ (case RestoreState v of
                None \<Rightarrow> []
              | Some r \<Rightarrow>
                  [(''RestoreState'', JObj [(''TemplateSystemId'', JStr (TemplateSystemId r))])]))"

text \<open>
  Modelled from the spec: the JSON form of the whole document, with the owner, the
  schema version, the terminate-on-last-handle-closed flag and the VM block.
\<close>

definition marshalDoc :: "ComputeSystem \<Rightarrow> json" where
  "marshalDoc d =
     JObj [(''Owner'', JStr (doc_Owner d)),
           (''SchemaVersion'',
             JObj [(''Major'', JNum (sint (Major (SchemaVersion d)))),
                   (''Minor'', JNum (sint (Minor (SchemaVersion d))))]),
           (''ShouldTerminateOnLastHandleClosed'', JBool (ShouldTerminateOnLastHandleClosed d)),
           (''VirtualMachine'', marshalVirtualMachine (VirtualMachine d))]"

subsection \<open>Options, the VM handle and the host\<close>

text \<open>
  \<^verbatim>\<open>OptionsWCOW\<close> with the embedded \<^verbatim>\<open>Options\<close> (declared outside the source files; the
  fields are the ones \<^verbatim>\<open>create_wcow.go\<close> reads). \<open>'r\<close> is the type of a cloneable
  resource. \<open>TemplateConfig\<close> is a pointer: \<open>None\<close> is nil.
\<close>

record 'r UVMTemplateConfig =
  UVMID :: string
  Resources :: "'r list"

record 'r OptionsWCOW =
  ID :: string
  Owner :: string
  MemorySizeInMB :: uint64
  LowMMIOGapInMB :: uint64
  HighMMIOBaseInMB :: uint64
  HighMMIOGapInMB :: uint64
  AllowOvercommit :: bool
  FullyPhysicallyBacked :: bool
  EnableDeferredCommit :: bool
  ProcessorCount :: int32
  ProcessorLimit :: int32
  ProcessorWeight :: int32
  StorageQoSIopsMaximum :: int32
  StorageQoSBandwidthMaximum :: int32
  ExternalGuestConnection :: bool
  AdditionHCSDocumentJSON :: string
  LayerFolders :: "string list"
  IsTemplate :: bool
  IsClone :: bool
  TemplateConfig :: "'r UVMTemplateConfig option"

typedecl VSMBShare
typedecl VPCIDevice
typedecl nicInfo

record namespaceInfo =
  nics :: "string \<rightharpoonup> nicInfo"

text \<open>\<open>vm\<close> is the back pointer to the VM, kept as the VM's id.\<close>

record SCSIMount =
  vm :: string
  HostPath :: string
  refCount :: "32 word"

text \<open>A listener is known by the address it is bound to.\<close>

datatype HvsockListener = HvsockListener (VMID: string) (ServiceID: string)

text \<open>
  \<^verbatim>\<open>UtilityVM\<close> (declared outside the source files), with the fields the source sets.
  \<open>scsiLocations\<close> is the fixed grid of slots by (controller, slot); \<open>namespaces\<close> is
  a map that can be nil.
\<close>

record UtilityVM =
  uvm_id :: string
  owner :: string
  operatingSystem :: string
  scsiControllerCount :: nat
  vsmbDirShares :: "string \<rightharpoonup> VSMBShare"
  vsmbFileShares :: "string \<rightharpoonup> VSMBShare"
  vpciDevices :: "string \<rightharpoonup> VPCIDevice"
  physicallyBacked :: bool
  devicesPhysicallyBacked :: bool
  processorCount :: int32
  scsiLocations :: "nat \<times> nat \<rightharpoonup> SCSIMount"
  namespaces :: "(string \<rightharpoonup> namespaceInfo) option"
  isClone :: bool
  runtimeID :: string
  gcListener :: "HvsockListener option"

record CloneData =
  cd_doc :: ComputeSystem
  cd_scratchFolder :: string
  cd_UVMID :: string

text \<open>
  What \<^verbatim>\<open>CreateWCOW\<close> does to the outside is a list of events, each with what the call
  returned (\<open>None\<close>: no error): directory and scratch disk creation, the replay of a
  cloneable resource, the submission of a document to the host service (returning the
  runtime id of the VM), the opening of a listener, and the release of the handle.
\<close>

datatype 'r event =
    EvMkdirAll string "string option"
  | EvCreateUVMScratch string string string "string option"
  | EvClone 'r "string option"
  | EvCreate string json "string + string"
  | EvListenHvsock string string "string option"
  | EvClose string

text \<open>
  The collaborators that are outside the source files, as parameters: what each call
  returns. \<open>Clone\<close> is the replay capability of a cloneable resource; it may change the
  handle, the document and the files. \<open>create\<close> submits a document for the VM of the
  given id and returns the runtime id.
\<close>

record 'r uvm_env =
  NewV4 :: "string + string"
  verifyOptions :: "'r OptionsWCOW \<Rightarrow> string option"
  errBadUVMOpts :: string
  LocateUVMFolder :: "string list \<Rightarrow> string + string"
  Stat_error :: "string \<Rightarrow> bool"
  MkdirAll_error :: "string \<Rightarrow> string option"
  filepath_Join :: "string \<Rightarrow> string \<Rightarrow> string"
  hostProcessorInfo :: "string + ProcessorTopology"
  normalizeMemorySize :: "uint64 \<Rightarrow> uint64"
  DefaultVSMBOptions :: "UtilityVM \<Rightarrow> bool \<Rightarrow> VirtualSmbShareOptions"
  SetSaveableVSMBOptions :: "UtilityVM \<Rightarrow> VirtualSmbShareOptions \<Rightarrow> bool \<Rightarrow> VirtualSmbShareOptions"
  CreateUVMScratch_error :: "string \<Rightarrow> string \<Rightarrow> string \<Rightarrow> string option"
  Clone :: "'r \<Rightarrow> UtilityVM \<Rightarrow> CloneData \<Rightarrow> string set
              \<Rightarrow> string option \<times> UtilityVM \<times> ComputeSystem \<times> string set"
  CLONING_DEFAULT_NETWORK_NAMESPACE_ID :: string
  Unmarshal :: "string \<Rightarrow> string + (string \<times> json) list"
  create :: "string \<Rightarrow> json \<Rightarrow> string + string"
  WindowsGcsHvsockServiceID :: string
  ListenHvsock :: "string \<Rightarrow> string \<Rightarrow> string option"

subsection \<open>The file system\<close>

text \<open>
  The files are the set of paths that exist. \<^verbatim>\<open>os.Stat\<close> fails with a not-exist error
  on a path that is not there, and may fail otherwise (\<open>Stat_error\<close>);
  \<^verbatim>\<open>os.IsNotExist\<close> tells the two apart. \<^verbatim>\<open>os.MkdirAll\<close> makes the path exist unless
  it fails.
\<close>

datatype stat_result = StatOK | ErrNotExist | ErrOther

definition os_Stat :: "'r uvm_env \<Rightarrow> string set \<Rightarrow> string \<Rightarrow> stat_result" where
  "os_Stat env files p =
     (if Stat_error env p then ErrOther else if p \<in> files then StatOK else ErrNotExist)"

definition os_IsNotExist :: "stat_result \<Rightarrow> bool" where
  "os_IsNotExist r = (r = ErrNotExist)"

definition os_MkdirAll :: "'r uvm_env \<Rightarrow> string set \<Rightarrow> string \<Rightarrow> string option \<times> string set" where
  "os_MkdirAll env files p =
     (case MkdirAll_error env p of
        Some err \<Rightarrow> (Some err, files)
      | None \<Rightarrow> (None, insert p files))"

text \<open>
  Modelled from the spec: \<^verbatim>\<open>wcow.CreateUVMScratch\<close> is outside the source files. The
  spec: it creates the scratch virtual disk file \<^verbatim>\<open>sandbox.vhdx\<close> in the scratch
  folder from a base template. Here the file exists afterwards unless the call fails.
\<close>

definition wcow_CreateUVMScratch ::
  "'r uvm_env \<Rightarrow> string set \<Rightarrow> string \<Rightarrow> string \<Rightarrow> string \<Rightarrow> string option \<times> string set" where
  "wcow_CreateUVMScratch env files uvmFolder scratchFolder vmID =
     (case CreateUVMScratch_error env uvmFolder scratchFolder vmID of
        Some err \<Rightarrow> (Some err, files)
      | None \<Rightarrow> (None, insert (filepath_Join env scratchFolder ''sandbox.vhdx'') files))"

subsection \<open>The functions of create_wcow.go\<close>

text \<open>
  Modelled from the spec: \<^verbatim>\<open>normalizeProcessorCount\<close> is outside the source files. The
  spec: if the requested processor count exceeds the host's logical processor count,
  it is clamped to the host's count; the request never fails for this reason.
\<close>

definition normalizeProcessorCount :: "int32 \<Rightarrow> ProcessorTopology \<Rightarrow> int32" where
  "normalizeProcessorCount requested processorTopology =
     (let hostCount = LogicalProcessorCount processorTopology
      in if hostCount <s requested then hostCount else requested)"

text \<open>
  Modelled from the spec: \<^verbatim>\<open>mergemaps.MergeJSON\<close> is outside the source files. The
  spec: merging an empty override fragment leaves the document unchanged; otherwise the
  fragment, a JSON object, is merged into the document and wins on overlapping keys.
  Reading the fragment's text (\<open>Unmarshal\<close>) may fail.
\<close>

definition MergeJSON :: "'r uvm_env \<Rightarrow> ComputeSystem \<Rightarrow> string \<Rightarrow> string + json" where
  "MergeJSON env object additionalJSON =
     (if additionalJSON = [] then Inr (marshalDoc object)
      else (case Unmarshal env additionalJSON of
              Inl err \<Rightarrow> Inl err
            | Inr newMap \<Rightarrow> Inr (Merge (marshalDoc object) (JObj newMap))))"

text \<open>
  Modelled from the spec: \<^verbatim>\<open>(*UtilityVM).create\<close> is outside the source files. The
  spec: it submits the document to the host service, yielding a running handle; the
  listener is later bound to the VM's runtime id, which the handle holds from here on.
\<close>

definition uvm_create ::
  "'r uvm_env \<Rightarrow> UtilityVM \<Rightarrow> json \<Rightarrow> string option \<times> UtilityVM \<times> 'r event" where
  "uvm_create env uvm fullDoc =
     (case create env (uvm_id uvm) fullDoc of
        Inl err \<Rightarrow> (Some err, uvm, EvCreate (uvm_id uvm) fullDoc (Inl err))
      | Inr rid \<Rightarrow> (None, uvm\<lparr>runtimeID := rid\<rparr>, EvCreate (uvm_id uvm) fullDoc (Inr rid)))"

definition getScratchFolder ::
  "'r uvm_env \<Rightarrow> 'r OptionsWCOW \<Rightarrow> string set
     \<Rightarrow> (failure + string) \<times> string set \<times> 'r event list" where
  "getScratchFolder env opts files =
     (case LayerFolders opts of
        [] \<Rightarrow> (Inl (Panic ''index out of range [-1]''), files, [])
      | _ # _ \<Rightarrow>
          let scratchFolder = last (LayerFolders opts) in
          if os_IsNotExist (os_Stat env files scratchFolder) then
            (case os_MkdirAll env files scratchFolder of
               (Some err, files1) \<Rightarrow>
                 (Inl (Error (''failed to create utility VM scratch folder: '' @ err)), files1,
                  [EvMkdirAll scratchFolder (Some err)])
             | (None, files1) \<Rightarrow> (Inr scratchFolder, files1, [EvMkdirAll scratchFolder None]))
          else (Inr scratchFolder, files, []))"

definition startExternalGcsListener ::
  "'r uvm_env \<Rightarrow> UtilityVM \<Rightarrow> string option \<times> UtilityVM \<times> 'r event list" where
  "startExternalGcsListener env uvm =
     (case ListenHvsock env (runtimeID uvm) (WindowsGcsHvsockServiceID env) of
        Some err \<Rightarrow>
          (Some err, uvm,
           [EvListenHvsock (runtimeID uvm) (WindowsGcsHvsockServiceID env) (Some err)])
      | None \<Rightarrow>
          (None,
           uvm\<lparr>gcListener := Some (HvsockListener (runtimeID uvm) (WindowsGcsHvsockServiceID env))\<rparr>,
           [EvListenHvsock (runtimeID uvm) (WindowsGcsHvsockServiceID env) None]))"

definition prepareConfigDoc ::
  "'r uvm_env \<Rightarrow> UtilityVM \<Rightarrow> 'r OptionsWCOW \<Rightarrow> string \<Rightarrow> string + UtilityVM \<times> ComputeSystem" where
  "prepareConfigDoc env uvm opts uvmFolder =
     (case hostProcessorInfo env of
        Inl err \<Rightarrow> Inl (''failed to get host processor information: '' @ err)
      | Inr processorTopology \<Rightarrow>
          let uvm1 = uvm\<lparr>processorCount :=
                       normalizeProcessorCount (ProcessorCount opts) processorTopology\<rparr>;
              memorySizeInMB = normalizeMemorySize env (MemorySizeInMB opts);
              vsmbOpts = (DefaultVSMBOptions env uvm1 True)\<lparr>TakeBackupPrivilege := True\<rparr>;
              virtualSMB =
                \<lparr> DirectFileMappingInMB = 1024,
                  Shares =
                    [\<lparr> Share_Name = ''os'',
                       Share_Path =
                         filepath_Join env uvmFolder (''UtilityVM'' @ [backslash] @ ''Files''),
                       Options = vsmbOpts \<rparr>] \<rparr>;
              doc =
                \<lparr> doc_Owner = owner uvm1,
                  SchemaVersion = SchemaV21,
                  ShouldTerminateOnLastHandleClosed = True,
                  VirtualMachine =
                    \<lparr> StopOnReset = True,
                      Chipset =
                        \<lparr> Uefi =
                            \<lparr> BootThis =
                                \<lparr> DevicePath =
                                    [backslash] @ ''EFI'' @ [backslash] @ ''Microsoft'' @ [backslash]
                                      @ ''Boot'' @ [backslash] @ ''bootmgfw.efi'',
                                  DeviceType = ''VmbFs'' \<rparr> \<rparr> \<rparr>,
                      ComputeTopology =
                        \<lparr> Memory =
                            \<lparr> SizeInMB = memorySizeInMB,
                              Memory_AllowOvercommit = AllowOvercommit opts,
                              EnableHotHint = AllowOvercommit opts,
                              Memory_EnableDeferredCommit = EnableDeferredCommit opts,
                              Memory_LowMMIOGapInMB = LowMMIOGapInMB opts,
                              Memory_HighMMIOBaseInMB = HighMMIOBaseInMB opts,
                              Memory_HighMMIOGapInMB = HighMMIOGapInMB opts \<rparr>,
                          Processor =
                            \<lparr> Count = processorCount uvm1,
                              Limit = ProcessorLimit opts,
                              Weight = ProcessorWeight opts \<rparr> \<rparr>,
                      Devices =
                        \<lparr> HvSocket =
                            \<lparr> HvSocketConfig =
                                \<lparr> DefaultBindSecurityDescriptor =
                                    ''D:P(A;;FA;;;SY)(A;;FA;;;BA)'' \<rparr> \<rparr>,
                          VirtualSmb = virtualSMB,
                          Scsi = [] \<rparr>,
                      GuestConnection = None,
                      StorageQoS = None,
                      RestoreState = None \<rparr> \<rparr>;
              doc1 =
                (if \<not> ExternalGuestConnection opts
                 then doc\<lparr>VirtualMachine :=
                        (VirtualMachine doc)\<lparr>GuestConnection :=
                           Some \<lparr>GuestConnection_unused = ()\<rparr>\<rparr>\<rparr>
                 else doc);
              doc2 =
                (if 0 <s StorageQoSBandwidthMaximum opts \<or> 0 <s StorageQoSIopsMaximum opts
                 then doc1\<lparr>VirtualMachine :=
                        (VirtualMachine doc1)\<lparr>StorageQoS :=
                           Some \<lparr> IopsMaximum = StorageQoSIopsMaximum opts,
                                  BandwidthMaximum = StorageQoSBandwidthMaximum opts \<rparr>\<rparr>\<rparr>
                 else doc1)
          in Inr (uvm1, doc2))"

text \<open>
  The then-branch of \<^verbatim>\<open>if !opts.IsClone\<close> in \<^verbatim>\<open>CreateWCOW\<close>: create \<^verbatim>\<open>sandbox.vhdx\<close>
  unless it is there, attach it at SCSI 0:0 in the document, and record the mount in
  the handle's slot table with the path read back from the document (a key that is
  missing from a Go map reads as the zero value).
\<close>

definition createScratch ::
  "'r uvm_env \<Rightarrow> UtilityVM \<Rightarrow> ComputeSystem \<Rightarrow> string \<Rightarrow> string \<Rightarrow> string set
     \<Rightarrow> (failure + UtilityVM \<times> ComputeSystem) \<times> string set \<times> 'r event list" where
  "createScratch env uvm doc uvmFolder scratchFolder files =
     (let scratchPath = filepath_Join env scratchFolder ''sandbox.vhdx'';
          created =
            (if os_IsNotExist (os_Stat env files scratchPath) then
               (case wcow_CreateUVMScratch env files uvmFolder scratchFolder (uvm_id uvm) of
                  (r, files1) \<Rightarrow>
                    (r, files1, [EvCreateUVMScratch uvmFolder scratchFolder (uvm_id uvm) r]))
             else (None, files, []))
      in (case created of
            (Some err, files1, evs) \<Rightarrow>
              (Inl (Error (''failed to create scratch: '' @ err)), files1, evs)
          | (None, files1, evs) \<Rightarrow>
              let doc1 =
                    doc\<lparr>VirtualMachine :=
                      (VirtualMachine doc)\<lparr>Devices :=
                        (Devices (VirtualMachine doc))\<lparr>Scsi :=
                          [(''0'',
                            \<lparr> Attachments =
                                [(''0'',
                                  \<lparr> Path = scratchPath,
                                    Attachment_Type = ''VirtualDisk'' \<rparr>)] \<rparr>)]\<rparr>\<rparr>\<rparr>;
                  hostPath =
                    (case map_of (Scsi (Devices (VirtualMachine doc1))) ''0'' of
                       None \<Rightarrow> []
                     | Some c \<Rightarrow>
                         (case map_of (Attachments c) ''0'' of None \<Rightarrow> [] | Some a \<Rightarrow> Path a));
                  uvm1 =
                    uvm\<lparr>scsiLocations :=
                      (scsiLocations uvm)((0, 0) \<mapsto>
                        \<lparr>vm = uvm_id uvm, HostPath = hostPath, refCount = 1\<rparr>)\<rparr>
              in (Inr (uvm1, doc1), files1, evs)))"

text \<open>The loop over \<^verbatim>\<open>opts.TemplateConfig.Resources\<close>.\<close>

fun cloneResources ::
  "'r uvm_env \<Rightarrow> 'r list \<Rightarrow> UtilityVM \<Rightarrow> ComputeSystem \<Rightarrow> string \<Rightarrow> string \<Rightarrow> string set
     \<Rightarrow> (failure + UtilityVM \<times> ComputeSystem) \<times> string set \<times> 'r event list" where
  "cloneResources env [] uvm doc scratchFolder uvmID files = (Inr (uvm, doc), files, [])"
| "cloneResources env (cloneableResource # rest) uvm doc scratchFolder uvmID files =
     (case Clone env cloneableResource uvm
             \<lparr>cd_doc = doc, cd_scratchFolder = scratchFolder, cd_UVMID = uvmID\<rparr> files of
        (Some err, uvm1, doc1, files1) \<Rightarrow>
          (Inl (Error (''Failed while cloning: '' @ err)), files1,
           [EvClone cloneableResource (Some err)])
      | (None, uvm1, doc1, files1) \<Rightarrow>
          (case cloneResources env rest uvm1 doc1 scratchFolder uvmID files1 of
             (r, files2, evs) \<Rightarrow> (r, files2, EvClone cloneableResource None # evs)))"

text \<open>The else-branch of \<^verbatim>\<open>if !opts.IsClone\<close>.\<close>

definition cloneFromTemplate ::
  "'r uvm_env \<Rightarrow> 'r OptionsWCOW \<Rightarrow> UtilityVM \<Rightarrow> ComputeSystem \<Rightarrow> string \<Rightarrow> string set
     \<Rightarrow> (failure + UtilityVM \<times> ComputeSystem) \<times> string set \<times> 'r event list" where
  "cloneFromTemplate env opts uvm doc scratchFolder files =
     (case TemplateConfig opts of
        None \<Rightarrow> (Inl (Panic ''nil pointer dereference''), files, [])
      | Some templateConfig \<Rightarrow>
          let doc1 =
                doc\<lparr>VirtualMachine :=
                  (VirtualMachine doc)\<lparr>RestoreState :=
                    Some \<lparr>TemplateSystemId = UVMID templateConfig\<rparr>\<rparr>\<rparr>
          in (case cloneResources env (Resources templateConfig) uvm doc1 scratchFolder
                     (ID opts) files of
                (Inl f, files1, evs) \<Rightarrow> (Inl f, files1, evs)
              | (Inr (uvm1, doc2), files1, evs) \<Rightarrow>
                  let ns = (case namespaces uvm1 of None \<Rightarrow> Map.empty | Some m \<Rightarrow> m);
                      uvm2 =
                        uvm1\<lparr>namespaces :=
                               Some (ns(CLONING_DEFAULT_NETWORK_NAMESPACE_ID env \<mapsto>
                                         \<lparr>nics = Map.empty\<rparr>)),
                             isClone := True\<rparr>
                  in (Inr (uvm2, doc2), files1, evs)))"

text \<open>
  The \<^verbatim>\<open>if !opts.IsClone { ... } else { ... }\<close> of \<^verbatim>\<open>CreateWCOW\<close>: a fresh scratch disk,
  or the replay of the template's resources.
\<close>

definition provision ::
  "'r uvm_env \<Rightarrow> 'r OptionsWCOW \<Rightarrow> UtilityVM \<Rightarrow> ComputeSystem \<Rightarrow> string \<Rightarrow> string
     \<Rightarrow> string set \<Rightarrow> (failure + UtilityVM \<times> ComputeSystem) \<times> string set \<times> 'r event list" where
  "provision env opts uvm doc uvmFolder scratchFolder files =
     (if \<not> IsClone opts
      then createScratch env uvm doc uvmFolder scratchFolder files
      else cloneFromTemplate env opts uvm doc scratchFolder files)"

text \<open>
  The \<^verbatim>\<open>if opts.IsTemplate { ... }\<close> of \<^verbatim>\<open>CreateWCOW\<close>: the options of every shared
  folder of the document are made saveable.
\<close>

definition saveableShares ::
  "'r uvm_env \<Rightarrow> 'r OptionsWCOW \<Rightarrow> UtilityVM \<Rightarrow> ComputeSystem \<Rightarrow> ComputeSystem" where
  "saveableShares env opts uvm doc =
     (if IsTemplate opts
      then doc\<lparr>VirtualMachine :=
             (VirtualMachine doc)\<lparr>Devices :=
               (Devices (VirtualMachine doc))\<lparr>VirtualSmb :=
                 (VirtualSmb (Devices (VirtualMachine doc)))\<lparr>Shares :=
                   map (\<lambda>share.
                          share\<lparr>Options :=
                            SetSaveableVSMBOptions env uvm (Options share)
                              (ReadOnly (Options share))\<rparr>)
                     (Shares (VirtualSmb (Devices (VirtualMachine doc))))\<rparr>\<rparr>\<rparr>\<rparr>
      else doc)"

text \<open>
  \<^verbatim>\<open>CreateWCOW\<close> from the check of the options on, for the handle \<open>uvm\<close> built from the
  options.
\<close>

definition CreateWCOW_body ::
  "'r uvm_env \<Rightarrow> 'r OptionsWCOW \<Rightarrow> UtilityVM \<Rightarrow> string set
     \<Rightarrow> (failure + UtilityVM) \<times> string set \<times> 'r event list" where
  "CreateWCOW_body env opts uvm files =
     (case verifyOptions env opts of
        Some err \<Rightarrow> (Inl (Error (errBadUVMOpts env @ '': '' @ err)), files, [])
      | None \<Rightarrow>
     (case LocateUVMFolder env (LayerFolders opts) of
        Inl err \<Rightarrow>
          (Inl (Error (''failed to locate utility VM folder from layer folders: '' @ err)),
           files, [])
      | Inr uvmFolder \<Rightarrow>
     (case getScratchFolder env opts files of
        (Inl f, files1, evs1) \<Rightarrow> (Inl f, files1, evs1)
      | (Inr scratchFolder, files1, evs1) \<Rightarrow>
     (case prepareConfigDoc env uvm opts uvmFolder of
        Inl err \<Rightarrow> (Inl (Error (''Error in preparing config doc: '' @ err)), files1, evs1)
      | Inr (uvm1, doc) \<Rightarrow>
     (case provision env opts uvm1 doc uvmFolder scratchFolder files1 of
        (Inl f, files2, evs2) \<Rightarrow> (Inl f, files2, evs1 @ evs2)
      | (Inr (uvm2, doc2), files2, evs2) \<Rightarrow>
     (case MergeJSON env (saveableShares env opts uvm2 doc2) (AdditionHCSDocumentJSON opts) of
        Inl err \<Rightarrow>
          (Inl (Error (''failed to merge additional JSON '' @ [CHR 0x27]
                        @ AdditionHCSDocumentJSON opts @ [CHR 0x27] @ '': '' @ err)),
           files2, evs1 @ evs2)
      | Inr fullDoc \<Rightarrow>
     (case uvm_create env uvm2 fullDoc of
        (Some err, uvm3, ev) \<Rightarrow>
          (Inl (Error (''error while creating the compute system: '' @ err)), files2,
           evs1 @ evs2 @ [ev])
      | (None, uvm3, ev) \<Rightarrow>
          \<comment> \<open>All clones MUST use external gcs connection\<close>
          if ExternalGuestConnection opts \<or> IsClone opts then
            (case startExternalGcsListener env uvm3 of
               (Some err, uvm4, evs4) \<Rightarrow> (Inl (Error err), files2, evs1 @ evs2 @ [ev] @ evs4)
             | (None, uvm4, evs4) \<Rightarrow> (Inr uvm4, files2, evs1 @ evs2 @ [ev] @ evs4))
          else (Inr uvm3, files2, evs1 @ evs2 @ [ev]))))))))"

text \<open>The handle literal of \<^verbatim>\<open>CreateWCOW\<close>; the fields it does not name are zero.\<close>

definition newUtilityVM :: "'r OptionsWCOW \<Rightarrow> UtilityVM" where
  "newUtilityVM opts =
     \<lparr> uvm_id = ID opts,
       owner = Owner opts,
       operatingSystem = ''windows'',
       scsiControllerCount = 1,
       vsmbDirShares = Map.empty,
       vsmbFileShares = Map.empty,
       vpciDevices = Map.empty,
       physicallyBacked = (\<not> AllowOvercommit opts),
       devicesPhysicallyBacked = FullyPhysicallyBacked opts,
       processorCount = 0,
       scsiLocations = Map.empty,
       namespaces = None,
       isClone = False,
       runtimeID = [],
       gcListener = None \<rparr>"

text \<open>
  \<^verbatim>\<open>CreateWCOW\<close>. A failure to generate an id returns before the deferred release of
  the handle is registered. After that, every return with an error releases the handle
  (\<^verbatim>\<open>uvm.Close()\<close>); a panic leaves the function with the error variable still nil, so
  the deferred function does not release.
\<close>

definition CreateWCOW ::
  "'r uvm_env \<Rightarrow> 'r OptionsWCOW \<Rightarrow> string set
     \<Rightarrow> (failure + UtilityVM) \<times> string set \<times> 'r event list" where
  "CreateWCOW env opts0 files =
     (case (if ID opts0 = [] then NewV4 env else Inr (ID opts0)) of
        Inl err \<Rightarrow> (Inl (Error err), files, [])
      | Inr newID \<Rightarrow>
          let opts = opts0\<lparr>ID := newID\<rparr>;
              uvm = newUtilityVM opts
          in (case CreateWCOW_body env opts uvm files of
                (Inl (Error err), files1, evs) \<Rightarrow>
                  (Inl (Error err), files1, evs @ [EvClose (uvm_id uvm)])
              | (Inl (Panic p), files1, evs) \<Rightarrow> (Inl (Panic p), files1, evs)
              | (Inr running, files1, evs) \<Rightarrow> (Inr running, files1, evs)))"

subsection \<open>Reading the events of a run\<close>

text \<open>The documents submitted to the host service, in order.\<close>

fun submitted :: "'r event list \<Rightarrow> json list" where
  "submitted [] = []"
| "submitted (EvCreate vmID d r # evs) = d # submitted evs"
| "submitted (e # evs) = submitted evs"

text \<open>The runtime ids of the VMs the host service created.\<close>

fun created :: "'r event list \<Rightarrow> string list" where
  "created [] = []"
| "created (EvCreate vmID d (Inr rid) # evs) = rid # created evs"
| "created (e # evs) = created evs"

text \<open>The replays of cloneable resources, in order, each with what it returned.\<close>

fun cloneCalls :: "'r event list \<Rightarrow> ('r \<times> string option) list" where
  "cloneCalls [] = []"
| "cloneCalls (EvClone r out # evs) = (r, out) # cloneCalls evs"
| "cloneCalls (e # evs) = cloneCalls evs"

text \<open>The listeners asked for: (VM id, service id), in order.\<close>

fun listens :: "'r event list \<Rightarrow> (string \<times> string) list" where
  "listens [] = []"
| "listens (EvListenHvsock v sid out # evs) = (v, sid) # listens evs"
| "listens (e # evs) = listens evs"

text \<open>The scratch folders for which a scratch disk was asked to be created.\<close>

fun scratchCreations :: "'r event list \<Rightarrow> string list" where
  "scratchCreations [] = []"
| "scratchCreations (EvCreateUVMScratch uvmFolder scratchFolder vmID out # evs) =
     scratchFolder # scratchCreations evs"
| "scratchCreations (e # evs) = scratchCreations evs"

text \<open>The ids of the VMs whose handle was released.\<close>

fun closes :: "'r event list \<Rightarrow> string list" where
  "closes [] = []"
| "closes (EvClose vmID # evs) = vmID # closes evs"
| "closes (e # evs) = closes evs"

text \<open>
  The override fragment leaves a path of the document alone: it is empty, or it is an
  object that holds nothing at that path and only objects on the way there.
\<close>

definition overrideLeavesPath :: "'r uvm_env \<Rightarrow> string list \<Rightarrow> string \<Rightarrow> bool" where
  "overrideLeavesPath env p additionalJSON =
     (additionalJSON = [] \<or>
      (case Unmarshal env additionalJSON of
         Inl err \<Rightarrow> True
       | Inr newMap \<Rightarrow> leavesPath p (JObj newMap)))"

text \<open>
  The override fragment keeps objects along a path of the document: it is empty, or
  whatever it holds on that path, up to and including its end, is an object.
\<close>

definition overrideKeepsObjects :: "'r uvm_env \<Rightarrow> string list \<Rightarrow> string \<Rightarrow> bool" where
  "overrideKeepsObjects env p additionalJSON =
     (additionalJSON = [] \<or>
      (case Unmarshal env additionalJSON of
         Inl err \<Rightarrow> True
       | Inr newMap \<Rightarrow> objectsAlong p (JObj newMap)))"

text \<open>A replay leaves the slot (0,0) of the handle, or the guest-connection marker of
  the document, as it found it.\<close>

definition cloneKeepsSlot00 :: "'r uvm_env \<Rightarrow> 'r \<Rightarrow> bool" where
  "cloneKeepsSlot00 env r =
     (\<forall>uvm cd files.
        scsiLocations (fst (snd (Clone env r uvm cd files))) (0, 0) = scsiLocations uvm (0, 0))"

definition cloneKeepsGuestConnection :: "'r uvm_env \<Rightarrow> 'r \<Rightarrow> bool" where
  "cloneKeepsGuestConnection env r =
     (\<forall>uvm cd files.
        GuestConnection (VirtualMachine (fst (snd (snd (Clone env r uvm cd files)))))
          = GuestConnection (VirtualMachine (cd_doc cd)))"

subsection \<open>An example host\<close>

text \<open>
  A host with 4 logical processors on which every call succeeds, except the replay of
  the resource \<open>bad\<close>. It reads three override fragments: one adds a second disk on
  SCSI controller 0, one replaces the \<open>VirtualMachine\<close> block by a number, one sets
  the memory size only.
\<close>

definition quoted :: "string \<Rightarrow> string" where
  "quoted s = CHR 0x22 # s @ [CHR 0x22]"

definition text_extraDisk :: string where
  "text_extraDisk =
     ''{'' @ quoted ''VirtualMachine'' @ '':{'' @ quoted ''Devices'' @ '':{'' @ quoted ''Scsi''
       @ '':{'' @ quoted ''0'' @ '':{'' @ quoted ''Attachments'' @ '':{'' @ quoted ''1''
       @ '':{'' @ quoted ''Path'' @ '':'' @ quoted ''data.vhdx'' @ '','' @ quoted ''Type''
       @ '':'' @ quoted ''VirtualDisk'' @ ''}}}}}}}''"

definition json_extraDisk :: "(string \<times> json) list" where
  "json_extraDisk =
     [(''VirtualMachine'',
       JObj [(''Devices'',
         JObj [(''Scsi'',
           JObj [(''0'',
             JObj [(''Attachments'',
               JObj [(''1'',
                 JObj [(''Path'', JStr ''data.vhdx''),
                       (''Type'', JStr ''VirtualDisk'')])])])])])])]"

definition text_noVM :: string where
  "text_noVM = ''{'' @ quoted ''VirtualMachine'' @ '':0}''"

definition text_memory :: string where
  "text_memory =
     ''{'' @ quoted ''VirtualMachine'' @ '':{'' @ quoted ''ComputeTopology'' @ '':{''
       @ quoted ''Memory'' @ '':{'' @ quoted ''SizeInMB'' @ '':2048}}}}''"

definition json_memory :: "(string \<times> json) list" where
  "json_memory =
     [(''VirtualMachine'',
       JObj [(''ComputeTopology'',
         JObj [(''Memory'', JObj [(''SizeInMB'', JNum 2048)])])])]"

definition env_ok :: "string uvm_env" where
  "env_ok =
     \<lparr> NewV4 = Inr ''6f9a31c2-0000-4000-8000-000000000001'',
       verifyOptions = (\<lambda>opts. None),
       errBadUVMOpts = ''UVM options incorrect'',
       LocateUVMFolder = (\<lambda>layers. case layers of [] \<Rightarrow> Inl ''no layers'' | l # _ \<Rightarrow> Inr l),
       Stat_error = (\<lambda>p. False),
       MkdirAll_error = (\<lambda>p. None),
       filepath_Join = (\<lambda>a b. a @ [backslash] @ b),
       hostProcessorInfo = Inr \<lparr>LogicalProcessorCount = 4\<rparr>,
       normalizeMemorySize = (\<lambda>m. m),
       DefaultVSMBOptions =
         (\<lambda>uvm readOnly.
            \<lparr>ReadOnly = readOnly, TakeBackupPrivilege = False, OtherOptions = []\<rparr>),
       SetSaveableVSMBOptions = (\<lambda>uvm opts readOnly. opts),
       CreateUVMScratch_error = (\<lambda>uvmFolder scratchFolder vmID. None),
       Clone =
         (\<lambda>r uvm cd files.
            (if r = ''bad'' then Some ''replay failed'' else None, uvm, cd_doc cd, files)),
       CLONING_DEFAULT_NETWORK_NAMESPACE_ID = ''clone-default-namespace'',
       Unmarshal =
         (\<lambda>s. if s = text_extraDisk then Inr json_extraDisk
              else if s = text_noVM then Inr [(''VirtualMachine'', JNum 0)]
              else if s = text_memory then Inr json_memory
              else Inl ''invalid character''),
       create = (\<lambda>vmID d. Inr (''rt-'' @ vmID)),
       WindowsGcsHvsockServiceID = ''acef5661-84a1-4e44-856b-6245e69f4620'',
       ListenHvsock = (\<lambda>vmID serviceID. None) \<rparr>"

text \<open>The same host, except that every replay removes the guest-connection marker
  from the document it is given.\<close>

definition env_strip :: "string uvm_env" where
  "env_strip =
     env_ok\<lparr>Clone :=
       (\<lambda>r uvm cd files.
          (None, uvm,
           (cd_doc cd)\<lparr>VirtualMachine :=
              (VirtualMachine (cd_doc cd))\<lparr>GuestConnection := None\<rparr>\<rparr>,
           files))\<rparr>"

definition opts_ok :: "string OptionsWCOW" where
  "opts_ok =
     \<lparr> ID = ''vm1'',
       Owner = ''test'',
       MemorySizeInMB = 1024,
       LowMMIOGapInMB = 0,
       HighMMIOBaseInMB = 0,
       HighMMIOGapInMB = 0,
       AllowOvercommit = True,
       FullyPhysicallyBacked = False,
       EnableDeferredCommit = False,
       ProcessorCount = 64,
       ProcessorLimit = 0,
       ProcessorWeight = 0,
       StorageQoSIopsMaximum = 0,
       StorageQoSBandwidthMaximum = 0,
       ExternalGuestConnection = False,
       AdditionHCSDocumentJSON = [],
       LayerFolders = [''layer1'', ''scratchDir''],
       IsTemplate = False,
       IsClone = False,
       TemplateConfig = None \<rparr>"

definition opts_clone :: "string list \<Rightarrow> string OptionsWCOW" where
  "opts_clone rs =
     opts_ok\<lparr>IsClone := True, TemplateConfig := Some \<lparr>UVMID = ''template1'', Resources = rs\<rparr>\<rparr>"

definition uvm_new :: UtilityVM where
  "uvm_new =
     \<lparr> uvm_id = ''vm1'',
       owner = ''test'',
       operatingSystem = ''windows'',
       scsiControllerCount = 1,
       vsmbDirShares = Map.empty,
       vsmbFileShares = Map.empty,
       vpciDevices = Map.empty,
       physicallyBacked = False,
       devicesPhysicallyBacked = False,
       processorCount = 0,
       scsiLocations = Map.empty,
       namespaces = None,
       isClone = False,
       runtimeID = [],
       gcListener = None \<rparr>"

text \<open>The document \<^verbatim>\<open>prepareConfigDoc\<close> builds on the example host.\<close>

definition doc_ok :: ComputeSystem where
  "doc_ok = snd (projr (prepareConfigDoc env_ok uvm_new opts_ok ''layer1''))"

section \<open>Network namespaces: properties\<close>

lemma addEndpoints_binds:
  "addEndpoints env netID es acc tr = (r, tr') \<Longrightarrow>
     \<exists>k \<le> length es.
       tr' = tr @ map (HnsAddNamespaceEndpoint netID) (take k es) \<and>
       (case r of
          Inr endpoints \<Rightarrow>
            k = length es \<and> endpoints = acc @ es \<and>
            (\<forall>i<k. hns_AddNamespaceEndpoint env
                      (tr @ map (HnsAddNamespaceEndpoint netID) (take i es)) netID (es ! i) = None)
        | Inl err \<Rightarrow>
            0 < k \<and>
            (\<forall>i<k - 1. hns_AddNamespaceEndpoint env
                      (tr @ map (HnsAddNamespaceEndpoint netID) (take i es)) netID (es ! i) = None) \<and>
            hns_AddNamespaceEndpoint env
              (tr @ map (HnsAddNamespaceEndpoint netID) (take (k - 1) es)) netID (es ! (k - 1))
              = Some err)"
proof (induction es arbitrary: acc tr)
  case Nil
  then show ?case by auto
next
  case (Cons e es)
  show ?case
  proof (cases "hns_AddNamespaceEndpoint env tr netID e")
    case (Some err)
    with Cons.prems have "r = Inl err" "tr' = tr @ [HnsAddNamespaceEndpoint netID e]"
      by auto
    with Some show ?thesis
      by (intro exI[of _ 1]) simp
  next
    case None
    let ?tr = "tr @ [HnsAddNamespaceEndpoint netID e]"
    from None Cons.prems have "addEndpoints env netID es (acc @ [e]) ?tr = (r, tr')"
      by simp
    from Cons.IH[OF this] obtain k where k: "k \<le> length es"
      "tr' = ?tr @ map (HnsAddNamespaceEndpoint netID) (take k es)"
      "(case r of
          Inr endpoints \<Rightarrow>
            k = length es \<and> endpoints = (acc @ [e]) @ es \<and>
            (\<forall>i<k. hns_AddNamespaceEndpoint env
                      (?tr @ map (HnsAddNamespaceEndpoint netID) (take i es)) netID (es ! i) = None)
        | Inl err \<Rightarrow>
            0 < k \<and>
            (\<forall>i<k - 1. hns_AddNamespaceEndpoint env
                      (?tr @ map (HnsAddNamespaceEndpoint netID) (take i es)) netID (es ! i) = None) \<and>
            hns_AddNamespaceEndpoint env
              (?tr @ map (HnsAddNamespaceEndpoint netID) (take (k - 1) es)) netID (es ! (k - 1))
              = Some err)"
      by blast
    show ?thesis
    proof (intro exI[of _ "Suc k"] conjI)
      show "Suc k \<le> length (e # es)" using k(1) by simp
      show "tr' = tr @ map (HnsAddNamespaceEndpoint netID) (take (Suc k) (e # es))"
        using k(2) by simp
      show "case r of
          Inr endpoints \<Rightarrow>
            Suc k = length (e # es) \<and> endpoints = acc @ e # es \<and>
            (\<forall>i<Suc k. hns_AddNamespaceEndpoint env
                      (tr @ map (HnsAddNamespaceEndpoint netID) (take i (e # es))) netID
                      ((e # es) ! i) = None)
        | Inl err \<Rightarrow>
            0 < Suc k \<and>
            (\<forall>i<Suc k - 1. hns_AddNamespaceEndpoint env
                      (tr @ map (HnsAddNamespaceEndpoint netID) (take i (e # es))) netID
                      ((e # es) ! i) = None) \<and>
            hns_AddNamespaceEndpoint env
              (tr @ map (HnsAddNamespaceEndpoint netID) (take (Suc k - 1) (e # es))) netID
              ((e # es) ! (Suc k - 1)) = Some err"
      proof (cases r)
        case (Inr endpoints)
        with k(3) None show ?thesis by (simp add: All_less_Suc2)
      next
        case (Inl err)
        with k(3) have "0 < k" by simp
        then obtain j where j: "k = Suc j" by (cases k) auto
        with Inl k(3) None show ?thesis by (simp add: All_less_Suc2)
      qed
    qed
  qed
qed

text \<open>
  C6. \<^verbatim>\<open>createNetworkNamespace\<close>, once the namespace \<open>netID\<close> is allocated, binds the
  endpoints of the list in list order and makes no other call (no unbind, no namespace
  removal). It returns without error exactly when every bind of the list returned
  without error; then every endpoint was bound and exactly one \<open>NetworkEndpoints\<close>
  resource, holding the namespace id and all the endpoint ids, was appended to the
  recorded resource list. Otherwise it stops at the first bind that fails: every bind
  before it returned without error and stays in place, nothing is bound after it, the
  error returned is the one that bind returned, and the recorded resource list is
  unchanged.
\<close>

theorem createNetworkNamespace_binds_in_order:
  assumes "hns_CreateNamespace env tr = Inr netID"
    and "EndpointList coi = Some es"
    and "createNetworkNamespace env coi res tr = (r, res', tr')"
  shows "\<exists>k \<le> length es.
       tr' = tr @ HnsCreateNamespace # map (HnsAddNamespaceEndpoint netID) (take k es) \<and>
       (case r of
          None \<Rightarrow>
            k = length es \<and>
            (\<forall>i<length es.
               hns_AddNamespaceEndpoint env
                 (tr @ HnsCreateNamespace # map (HnsAddNamespaceEndpoint netID) (take i es))
                 netID (es ! i) = None) \<and>
            resources res' = resources res @ [NetworkEndpoints es netID]
        | Some f \<Rightarrow>
            0 < k \<and>
            (\<forall>i<k - 1.
               hns_AddNamespaceEndpoint env
                 (tr @ HnsCreateNamespace # map (HnsAddNamespaceEndpoint netID) (take i es))
                 netID (es ! i) = None) \<and>
            resources res' = resources res \<and>
            (\<exists>err. f = Error err \<and>
               hns_AddNamespaceEndpoint env
                 (tr @ HnsCreateNamespace # map (HnsAddNamespaceEndpoint netID) (take (k - 1) es))
                 netID (es ! (k - 1)) = Some err))"
proof -
  obtain r0 tr2 where a: "addEndpoints env netID es [] (tr @ [HnsCreateNamespace]) = (r0, tr2)"
    by (cases "addEndpoints env netID es [] (tr @ [HnsCreateNamespace])") auto
  from addEndpoints_binds[OF a] obtain k where k: "k \<le> length es"
    "tr2 = (tr @ [HnsCreateNamespace]) @ map (HnsAddNamespaceEndpoint netID) (take k es)"
    "(case r0 of
          Inr endpoints \<Rightarrow>
            k = length es \<and> endpoints = [] @ es \<and>
            (\<forall>i<k. hns_AddNamespaceEndpoint env
                      ((tr @ [HnsCreateNamespace]) @ map (HnsAddNamespaceEndpoint netID) (take i es))
                      netID (es ! i) = None)
        | Inl err \<Rightarrow>
            0 < k \<and>
            (\<forall>i<k - 1. hns_AddNamespaceEndpoint env
                      ((tr @ [HnsCreateNamespace]) @ map (HnsAddNamespaceEndpoint netID) (take i es))
                      netID (es ! i) = None) \<and>
            hns_AddNamespaceEndpoint env
              ((tr @ [HnsCreateNamespace]) @ map (HnsAddNamespaceEndpoint netID) (take (k - 1) es))
              netID (es ! (k - 1)) = Some err)"
    by blast
  show ?thesis
  proof (cases r0)
    case (Inl err)
    with assms a have "r = Some (Error err)" "tr' = tr2" "resources res' = resources res"
      by (auto simp: createNetworkNamespace_def Let_def)
    with k Inl show ?thesis
      by (intro exI[of _ k]) simp
  next
    case (Inr endpoints)
    with k(3) have "endpoints = es" "k = length es" by simp_all
    with assms a Inr have "r = None" "tr' = tr2"
      "resources res' = resources res @ [NetworkEndpoints es netID]"
      by (auto simp: createNetworkNamespace_def Let_def)
    with k Inr \<open>k = length es\<close> show ?thesis
      by (intro exI[of _ k]) simp
  qed
qed

theorem createNetworkNamespace_binds_in_order_witness:
  "(\<exists>k \<le> length [''A'', ''B'', ''C''].
       [HnsCreateNamespace, HnsAddNamespaceEndpoint ''ns1'' ''A'',
        HnsAddNamespaceEndpoint ''ns1'' ''B'']
         = ([] :: string call list) @ HnsCreateNamespace #
             map (HnsAddNamespaceEndpoint ''ns1'') (take k [''A'', ''B'', ''C'']) \<and>
       0 < k \<and>
       (\<forall>i<k - 1.
          hns_AddNamespaceEndpoint env_net
            ([] @ HnsCreateNamespace #
               map (HnsAddNamespaceEndpoint ''ns1'') (take i [''A'', ''B'', ''C'']))
            ''ns1'' ([''A'', ''B'', ''C''] ! i) = None) \<and>
       resources \<lparr>netNS = ''ns1'', createdNetNS = True, resources = []\<rparr>
         = resources \<lparr>netNS = [], createdNetNS = False, resources = []\<rparr> \<and>
       (\<exists>err. Error ''bind failed'' = Error err \<and>
          hns_AddNamespaceEndpoint env_net
            ([] @ HnsCreateNamespace #
               map (HnsAddNamespaceEndpoint ''ns1'') (take (k - 1) [''A'', ''B'', ''C'']))
            ''ns1'' ([''A'', ''B'', ''C''] ! (k - 1)) = Some err)) \<and>
   (\<exists>k \<le> length [''A'', ''C''].
       [HnsCreateNamespace, HnsAddNamespaceEndpoint ''ns1'' ''A'',
        HnsAddNamespaceEndpoint ''ns1'' ''C'']
         = ([] :: string call list) @ HnsCreateNamespace #
             map (HnsAddNamespaceEndpoint ''ns1'') (take k [''A'', ''C'']) \<and>
       k = length [''A'', ''C''] \<and>
       (\<forall>i<length [''A'', ''C''].
          hns_AddNamespaceEndpoint env_net
            ([] @ HnsCreateNamespace #
               map (HnsAddNamespaceEndpoint ''ns1'') (take i [''A'', ''C'']))
            ''ns1'' ([''A'', ''C''] ! i) = None) \<and>
       resources \<lparr>netNS = ''ns1'', createdNetNS = True,
                   resources = [NetworkEndpoints [''A'', ''C''] ''ns1'']\<rparr>
         = resources \<lparr>netNS = [], createdNetNS = False, resources = []\<rparr>
             @ [NetworkEndpoints [''A'', ''C''] ''ns1''])"
proof -
  have run: "createNetworkNamespace env_net
       \<lparr>coi_ID = ''c1'', EndpointList = Some [''A'', ''B'', ''C'']\<rparr>
       \<lparr>netNS = [], createdNetNS = False, resources = []\<rparr> []
     = (Some (Error ''bind failed''),
        \<lparr>netNS = ''ns1'', createdNetNS = True, resources = []\<rparr>,
        [HnsCreateNamespace, HnsAddNamespaceEndpoint ''ns1'' ''A'',
         HnsAddNamespaceEndpoint ''ns1'' ''B''])"
    by (simp add: createNetworkNamespace_def env_net_def)
  have run2: "createNetworkNamespace env_net
       \<lparr>coi_ID = ''c2'', EndpointList = Some [''A'', ''C'']\<rparr>
       \<lparr>netNS = [], createdNetNS = False, resources = []\<rparr> []
     = (None,
        \<lparr>netNS = ''ns1'', createdNetNS = True,
          resources = [NetworkEndpoints [''A'', ''C''] ''ns1'']\<rparr>,
        [HnsCreateNamespace, HnsAddNamespaceEndpoint ''ns1'' ''A'',
         HnsAddNamespaceEndpoint ''ns1'' ''C''])"
    by (simp add: createNetworkNamespace_def env_net_def)
  have c: "hns_CreateNamespace env_net [] = Inr ''ns1''"
    by (simp add: env_net_def)
  have e1: "EndpointList \<lparr>coi_ID = ''c1'', EndpointList = Some [''A'', ''B'', ''C'']\<rparr>
             = Some [''A'', ''B'', ''C'']"
    by simp
  have e2: "EndpointList \<lparr>coi_ID = ''c2'', EndpointList = Some [''A'', ''C'']\<rparr>
             = Some [''A'', ''C'']"
    by simp
  note a = createNetworkNamespace_binds_in_order[OF c e1 run, unfolded option.case]
  note b = createNetworkNamespace_binds_in_order[OF c e2 run2, unfolded option.case]
  from a b show ?thesis by (rule conjI)
qed

text \<open>
  C3. When \<^verbatim>\<open>SetupNetworkNamespace\<close> gets the endpoints, \<^verbatim>\<open>AddNetNS\<close> succeeds and
  \<^verbatim>\<open>AddEndpointsToNS\<close> fails with \<open>err\<close>, it then calls \<^verbatim>\<open>RemoveNetNS\<close> on the same
  namespace id and returns exactly \<open>err\<close>, whatever \<^verbatim>\<open>RemoveNetNS\<close> returns (\<open>rm\<close> is
  any behaviour of \<^verbatim>\<open>RemoveNetNS\<close>).
\<close>

theorem SetupNetworkNamespace_rollback:
  assumes "GetNamespaceEndpoints env nsid tr = (Inr endpoints, tr1)"
    and "uvm_AddNetNS env tr1 nsid = None"
    and "uvm_AddEndpointsToNS env (tr1 @ [UvmAddNetNS nsid]) nsid endpoints = Some err"
  shows "SetupNetworkNamespace (env\<lparr>uvm_RemoveNetNS := rm\<rparr>) nsid tr
           = (Some err,
              tr1 @ [UvmAddNetNS nsid, UvmAddEndpointsToNS nsid endpoints, UvmRemoveNetNS nsid])"
proof -
  have res: "resolveEndpoints (env\<lparr>uvm_RemoveNetNS := rm\<rparr>) ids acc t
               = resolveEndpoints env ids acc t" for ids acc t
    by (induction ids arbitrary: acc t) (auto split: sum.splits)
  have "GetNamespaceEndpoints (env\<lparr>uvm_RemoveNetNS := rm\<rparr>) nsid tr
          = GetNamespaceEndpoints env nsid tr"
    by (simp add: GetNamespaceEndpoints_def res split: sum.splits)
  with assms show ?thesis
    by (simp add: SetupNetworkNamespace_def Let_def)
qed

theorem SetupNetworkNamespace_rollback_witness:
  "SetupNetworkNamespace (env_net\<lparr>uvm_RemoveNetNS := (\<lambda>tr ns. Some ''remove failed'')\<rparr>) ''ns1'' []
     = (Some ''attach failed'',
        [HnsGetNamespaceEndpoints ''ns1'', HnsGetHNSEndpointByID ''A'', HnsGetHNSEndpointByID ''C'']
          @ [UvmAddNetNS ''ns1'', UvmAddEndpointsToNS ''ns1'' [''A'', ''C''], UvmRemoveNetNS ''ns1''])"
proof -
  have g: "GetNamespaceEndpoints env_net ''ns1'' []
     = (Inr [''A'', ''C''],
        [HnsGetNamespaceEndpoints ''ns1'', HnsGetHNSEndpointByID ''A'', HnsGetHNSEndpointByID ''C''])"
    by (simp add: GetNamespaceEndpoints_def env_net_def)
  show ?thesis
    by (rule SetupNetworkNamespace_rollback[OF g]) (simp_all add: env_net_def)
qed

section \<open>Utility VM creation: helper facts\<close>

subsection \<open>Reading events\<close>

lemma submitted_append: "submitted (a @ b) = submitted a @ submitted b"
  by (induction a rule: submitted.induct) simp_all

lemma created_append: "created (a @ b) = created a @ created b"
  by (induction a rule: created.induct) simp_all

lemma cloneCalls_append: "cloneCalls (a @ b) = cloneCalls a @ cloneCalls b"
  by (induction a rule: cloneCalls.induct) simp_all

lemma listens_append: "listens (a @ b) = listens a @ listens b"
  by (induction a rule: listens.induct) simp_all

lemma scratchCreations_append: "scratchCreations (a @ b) = scratchCreations a @ scratchCreations b"
  by (induction a rule: scratchCreations.induct) simp_all

lemma closes_append: "closes (a @ b) = closes a @ closes b"
  by (induction a rule: closes.induct) simp_all

lemmas reads_append =
  submitted_append created_append cloneCalls_append listens_append scratchCreations_append
  closes_append

lemma reads_close [simp]:
  "submitted (case r of Inl (Error e) \<Rightarrow> [EvClose i] | Inl (Panic p) \<Rightarrow> [] | Inr x \<Rightarrow> []) = []"
  "created (case r of Inl (Error e) \<Rightarrow> [EvClose i] | Inl (Panic p) \<Rightarrow> [] | Inr x \<Rightarrow> []) = []"
  "listens (case r of Inl (Error e) \<Rightarrow> [EvClose i] | Inl (Panic p) \<Rightarrow> [] | Inr x \<Rightarrow> []) = []"
  "cloneCalls (case r of Inl (Error e) \<Rightarrow> [EvClose i] | Inl (Panic p) \<Rightarrow> [] | Inr x \<Rightarrow> []) = []"
  "scratchCreations (case r of Inl (Error e) \<Rightarrow> [EvClose i] | Inl (Panic p) \<Rightarrow> [] | Inr x \<Rightarrow> []) = []"
  by (auto split: sum.splits failure.splits)

subsection \<open>The override merge and the JSON form\<close>

lemma map_of_setField:
  "map_of (setField k v fs) k' = (if k' = k then Some v else map_of fs k')"
  by (induction fs) auto

lemma setField_append_notin:
  "k \<notin> fst ` set d \<Longrightarrow> setField k v (d @ xs) = d @ setField k v xs"
  by (induction d) auto

lemma map_of_append_notin:
  "k \<notin> fst ` set d \<Longrightarrow> map_of (d @ xs) k = map_of xs k"
  by (induction d) auto

lemma MergeFields_keeps_prefix:
  "fst ` set f \<inter> fst ` set d = {} \<Longrightarrow> \<exists>added. MergeFields (d @ xs) f = d @ added"
proof (induction f arbitrary: xs)
  case Nil
  then show ?case by simp
next
  case (Cons a f)
  obtain k w where a: "a = (k, w)" by (cases a)
  with Cons.prems have k: "k \<notin> fst ` set d" and f: "fst ` set f \<inter> fst ` set d = {}"
    by auto
  from Cons.IH[OF f] obtain added where
    "MergeFields (d @ setField k (case map_of xs k of None \<Rightarrow> w | Some v \<Rightarrow> Merge v w) xs) f
       = d @ added"
    by blast
  with a k map_of_append_notin[OF k, of xs] show ?case
    by (simp add: setField_append_notin del: map_of_append)
qed

lemma jsonGet_marshalDoc_VM:
  "jsonGet (''VirtualMachine'' # ks) (marshalDoc d)
     = jsonGet ks (marshalVirtualMachine (VirtualMachine d))"
  by (simp add: marshalDoc_def)


lemma jsonGet_GuestConnection:
  "jsonGet [''VirtualMachine'', ''GuestConnection''] (marshalDoc d)
     = (case GuestConnection (VirtualMachine d) of None \<Rightarrow> None | Some g \<Rightarrow> Some (JObj []))"
  by (simp add: jsonGet_marshalDoc_VM marshalVirtualMachine_def split: option.splits)

lemma saveableShares_keeps:
  "Scsi (Devices (VirtualMachine (saveableShares env opts uvm doc)))
     = Scsi (Devices (VirtualMachine doc))"
  "GuestConnection (VirtualMachine (saveableShares env opts uvm doc))
     = GuestConnection (VirtualMachine doc)"
  by (simp_all add: saveableShares_def)

lemma leavesPath_jsonGet:
  "leavesPath p f \<Longrightarrow> jsonGet p f = None"
proof (induction p arbitrary: f)
  case Nil
  then show ?case by simp
next
  case (Cons k ks)
  from Cons.prems obtain fs where f: "f = JObj fs" and l: "leavesPathFields k ks fs"
    by (cases f) auto
  have "leavesPathFields k ks gs \<Longrightarrow> map_of gs k = Some v \<Longrightarrow> leavesPath ks v" for gs v
    by (induction gs) (auto split: if_splits)
  with l Cons.IH have "map_of fs k = Some v \<Longrightarrow> jsonGet ks v = None" for v
    by blast
  with f show ?case by (simp split: option.splits)
qed

lemma leavesPath_Merge:
  "leavesPath p f \<Longrightarrow> jsonGet p (Merge d f) = jsonGet p d"
proof (induction p arbitrary: d f)
  case Nil
  then show ?case by simp
next
  case (Cons k ks)
  from Cons.prems obtain fs where f: "f = JObj fs" and l: "leavesPathFields k ks fs"
    by (cases f) auto
  have fields: "leavesPathFields k ks gs \<Longrightarrow>
      (case map_of (MergeFields ds gs) k of None \<Rightarrow> None | Some v \<Rightarrow> jsonGet ks v)
        = (case map_of ds k of None \<Rightarrow> None | Some v \<Rightarrow> jsonGet ks v)" for gs ds
  proof (induction gs arbitrary: ds)
    case Nil
    then show ?case by simp
  next
    case (Cons a gs)
    obtain k' w where a: "a = (k', w)" by (cases a)
    with Cons.prems have rest: "leavesPathFields k ks gs"
      and here: "k' = k \<Longrightarrow> leavesPath ks w"
      by simp_all
    let ?ds = "setField k' (case map_of ds k' of None \<Rightarrow> w | Some v \<Rightarrow> Merge v w) ds"
    have "(case map_of ?ds k of None \<Rightarrow> None | Some v \<Rightarrow> jsonGet ks v)
            = (case map_of ds k of None \<Rightarrow> None | Some v \<Rightarrow> jsonGet ks v)"
    proof (cases "k' = k")
      case False
      then show ?thesis by (simp add: map_of_setField)
    next
      case True
      with here have w: "leavesPath ks w" by simp
      show ?thesis
        using True leavesPath_jsonGet[OF w] \<open>\<And>f d. leavesPath ks f \<Longrightarrow> jsonGet ks (Merge d f) = jsonGet ks d\<close>[OF w]
        by (simp add: map_of_setField split: option.splits)
    qed
    with Cons.IH[OF rest, of ?ds] a show ?case by simp
  qed
  show ?case
  proof (cases d)
    case (JObj ds)
    with f fields[OF l, of ds] show ?thesis by simp
  qed (use f leavesPath_jsonGet[OF Cons.prems] in auto)
qed

lemma objectsAlong_Merge:
  "objectsAlong p f \<Longrightarrow> isObject (jsonGet p d) \<Longrightarrow> isObject (jsonGet p (Merge d f))"
proof (induction p arbitrary: d f)
  case Nil
  then show ?case by (cases f; cases d) auto
next
  case (Cons k ks)
  from Cons.prems(1) obtain fs where f: "f = JObj fs" and l: "objectsAlongFields k ks fs"
    by (cases f) auto
  from Cons.prems(2) obtain ds where d: "d = JObj ds"
    by (cases d) auto
  have fields: "objectsAlongFields k ks gs \<Longrightarrow>
      isObject (case map_of es k of None \<Rightarrow> None | Some v \<Rightarrow> jsonGet ks v) \<Longrightarrow>
      isObject (case map_of (MergeFields es gs) k of None \<Rightarrow> None | Some v \<Rightarrow> jsonGet ks v)"
    for gs es
  proof (induction gs arbitrary: es)
    case Nil
    then show ?case by simp
  next
    case (Cons a gs)
    obtain k' w where a: "a = (k', w)" by (cases a)
    with Cons.prems(1) have rest: "objectsAlongFields k ks gs"
      and here: "k' = k \<Longrightarrow> objectsAlong ks w"
      by simp_all
    let ?es = "setField k' (case map_of es k' of None \<Rightarrow> w | Some v \<Rightarrow> Merge v w) es"
    have "isObject (case map_of ?es k of None \<Rightarrow> None | Some v \<Rightarrow> jsonGet ks v)"
    proof (cases "k' = k")
      case False
      with Cons.prems(2) show ?thesis by (simp add: map_of_setField)
    next
      case True
      with here have w: "objectsAlong ks w" by simp
      from Cons.prems(2) obtain v where v: "map_of es k = Some v" "isObject (jsonGet ks v)"
        by (auto split: option.splits)
      from \<open>\<And>f d. objectsAlong ks f \<Longrightarrow> isObject (jsonGet ks d) \<Longrightarrow> isObject (jsonGet ks (Merge d f))\<close>[OF w v(2)]
      show ?thesis using True v(1) by (simp add: map_of_setField)
    qed
    from Cons.IH[OF rest this] a show ?case by simp
  qed
  from Cons.prems(2) d f fields[OF l, of ds] show ?case by simp
qed

lemma MergeJSON_leavesPath:
  assumes "overrideLeavesPath env p (AdditionHCSDocumentJSON opts)"
    and "MergeJSON env doc (AdditionHCSDocumentJSON opts) = Inr fullDoc"
  shows "jsonGet p fullDoc = jsonGet p (marshalDoc doc)"
  using assms
  by (auto simp: overrideLeavesPath_def MergeJSON_def leavesPath_Merge
      split: if_splits sum.splits)

lemma MergeJSON_keepsObjects:
  assumes "overrideKeepsObjects env p (AdditionHCSDocumentJSON opts)"
    and "MergeJSON env doc (AdditionHCSDocumentJSON opts) = Inr fullDoc"
    and "isObject (jsonGet p (marshalDoc doc))"
  shows "isObject (jsonGet p fullDoc)"
  using assms
  by (auto simp: overrideKeepsObjects_def MergeJSON_def objectsAlong_Merge
      split: if_splits sum.splits)

subsection \<open>The steps of CreateWCOW\<close>

lemma getScratchFolder_events:
  assumes "getScratchFolder env opts files = (r, files', evs)"
  shows "submitted evs = []" "created evs = []" "cloneCalls evs = []" "listens evs = []"
    "scratchCreations evs = []" "closes evs = []"
  using assms
  by (auto simp: getScratchFolder_def os_MkdirAll_def Let_def
      split: list.splits if_splits option.splits)


lemma prepareConfigDoc_Inr:
  assumes "prepareConfigDoc env uvm opts uvmFolder = Inr (uvm1, doc)"
  shows "uvm1 = uvm\<lparr>processorCount := processorCount uvm1\<rparr>"
    and "GuestConnection (VirtualMachine doc)
           = (if ExternalGuestConnection opts then None else Some \<lparr>GuestConnection_unused = ()\<rparr>)"
    and "Scsi (Devices (VirtualMachine doc)) = []"
    and "gcListener uvm1 = gcListener uvm"
    and "scsiLocations uvm1 = scsiLocations uvm"
    and "uvm_id uvm1 = uvm_id uvm"
  using assms
  by (auto simp: prepareConfigDoc_def Let_def split: sum.splits)

lemma createScratch_events:
  assumes "createScratch env uvm doc uvmFolder sf files = (r, files', evs)"
  shows "submitted evs = []" "created evs = []" "cloneCalls evs = []" "listens evs = []"
    "closes evs = []"
  using assms
  by (auto simp: createScratch_def wcow_CreateUVMScratch_def Let_def
      split: if_splits option.splits)

lemma createScratch_Inr:
  assumes "createScratch env uvm doc uvmFolder sf files = (Inr (uvm1, doc1), files', evs)"
  shows "doc1 = doc\<lparr>VirtualMachine :=
                      (VirtualMachine doc)\<lparr>Devices :=
                        (Devices (VirtualMachine doc))\<lparr>Scsi :=
                          [(''0'',
                            \<lparr> Attachments =
                                [(''0'',
                                  \<lparr> Path = filepath_Join env sf ''sandbox.vhdx'',
                                    Attachment_Type = ''VirtualDisk'' \<rparr>)] \<rparr>)]\<rparr>\<rparr>\<rparr>"
    and "uvm1 = uvm\<lparr>scsiLocations :=
                      (scsiLocations uvm)((0, 0) \<mapsto>
                        \<lparr>vm = uvm_id uvm, HostPath = filepath_Join env sf ''sandbox.vhdx'',
                         refCount = 1\<rparr>)\<rparr>"
    and "gcListener uvm1 = gcListener uvm"
    and "uvm_id uvm1 = uvm_id uvm"
    and "GuestConnection (VirtualMachine doc1) = GuestConnection (VirtualMachine doc)"
    and "Scsi (Devices (VirtualMachine doc1)) =
           [(''0'', \<lparr>Attachments =
                      [(''0'', \<lparr>Path = filepath_Join env sf ''sandbox.vhdx'',
                                 Attachment_Type = ''VirtualDisk''\<rparr>)]\<rparr>)]"
    and "scsiLocations uvm1 (0, 0) =
           Some \<lparr>vm = uvm_id uvm, HostPath = filepath_Join env sf ''sandbox.vhdx'',
                  refCount = 1\<rparr>"
  using assms
  by (auto simp: createScratch_def wcow_CreateUVMScratch_def Let_def
      split: if_splits option.splits)

lemma cloneResources_reads:
  assumes "cloneResources env rs uvm doc sf uid files = (r, files', evs)"
  shows "submitted evs = []" "created evs = []" "listens evs = []"
    "scratchCreations evs = []" "closes evs = []"
  using assms
  by (induction rs arbitrary: uvm doc files r files' evs;
      auto split: option.splits prod.splits)+



lemma cloneResources_keeps_marker:
  assumes "\<forall>r\<in>set rs. cloneKeepsGuestConnection env r"
    and "cloneResources env rs uvm doc sf uid files = (Inr (uvm', doc'), files', evs)"
  shows "GuestConnection (VirtualMachine doc') = GuestConnection (VirtualMachine doc)"
  using assms
proof (induction rs arbitrary: uvm doc files evs)
  case Nil
  then show ?case by simp
next
  case (Cons x rs)
  obtain out uvm1 doc1 files1 where
    c: "Clone env x uvm \<lparr>cd_doc = doc, cd_scratchFolder = sf, cd_UVMID = uid\<rparr> files
          = (out, uvm1, doc1, files1)"
    by (metis prod_cases4)
  from Cons.prems(1) have "cloneKeepsGuestConnection env x" by simp
  then have "GuestConnection (VirtualMachine (fst (snd (snd
       (Clone env x uvm \<lparr>cd_doc = doc, cd_scratchFolder = sf, cd_UVMID = uid\<rparr> files)))))
     = GuestConnection (VirtualMachine
         (cd_doc \<lparr>cd_doc = doc, cd_scratchFolder = sf, cd_UVMID = uid\<rparr>))"
    unfolding cloneKeepsGuestConnection_def by blast
  with c have k: "GuestConnection (VirtualMachine doc1) = GuestConnection (VirtualMachine doc)"
    by simp
  from Cons.prems(2) c obtain evs2 where
    "cloneResources env rs uvm1 doc1 sf uid files1 = (Inr (uvm', doc'), files', evs2)"
    by (auto split: option.splits prod.splits)
  with Cons.IH[of uvm1 doc1 files1 evs2] Cons.prems(1) k show ?case by simp
qed

lemma cloneFromTemplate_reads:
  assumes "cloneFromTemplate env opts uvm doc sf files = (r, files', evs)"
  shows "submitted evs = []" "created evs = []" "listens evs = []"
    "scratchCreations evs = []" "closes evs = []"
  using assms cloneResources_reads
  by (fastforce simp: cloneFromTemplate_def Let_def split: option.splits prod.splits sum.splits)+

lemma cloneFromTemplate_Inr:
  assumes "cloneFromTemplate env opts uvm doc sf files = (Inr (uvm2, doc2), files', evs)"
  obtains tc uvm1 where "TemplateConfig opts = Some tc"
    "cloneResources env (Resources tc) uvm
       (doc\<lparr>VirtualMachine :=
              (VirtualMachine doc)\<lparr>RestoreState := Some \<lparr>TemplateSystemId = UVMID tc\<rparr>\<rparr>\<rparr>)
       sf (ID opts) files = (Inr (uvm1, doc2), files', evs)"
    "scsiLocations uvm2 = scsiLocations uvm1"
  using assms
  by (auto simp: cloneFromTemplate_def Let_def split: option.splits prod.splits sum.splits)


lemma provision_reads:
  assumes "provision env opts uvm doc uvmFolder sf files = (r, files', evs)"
  shows "submitted evs = [] \<and> created evs = [] \<and> listens evs = [] \<and> closes evs = []"
  using assms createScratch_events[of env uvm doc uvmFolder sf files r files' evs]
    cloneFromTemplate_reads[of env opts uvm doc sf files r files' evs]
  by (simp add: provision_def split: if_splits)

lemma provision_keeps_marker:
  assumes "provision env opts uvm doc uvmFolder sf files = (Inr (uvm2, doc2), files', evs)"
    and "\<forall>tc. TemplateConfig opts = Some tc \<longrightarrow>
           (\<forall>r\<in>set (Resources tc). cloneKeepsGuestConnection env r)"
  shows "GuestConnection (VirtualMachine doc2) = GuestConnection (VirtualMachine doc)"
proof (cases "IsClone opts")
  case False
  with assms(1) have "createScratch env uvm doc uvmFolder sf files = (Inr (uvm2, doc2), files', evs)"
    by (simp add: provision_def)
  from createScratch_Inr(5)[OF this] show ?thesis .
next
  case True
  with assms(1) have "cloneFromTemplate env opts uvm doc sf files = (Inr (uvm2, doc2), files', evs)"
    by (simp add: provision_def)
  then show ?thesis
  proof (cases rule: cloneFromTemplate_Inr)
    case (1 tc uvm1)
    from assms(2) 1(1) have "\<forall>r\<in>set (Resources tc). cloneKeepsGuestConnection env r" by simp
    from cloneResources_keeps_marker[OF this 1(2)] show ?thesis by simp
  qed
qed



subsection \<open>The ways a run of CreateWCOW can go\<close>

lemma CreateWCOW_body_cases [consumes 1, case_names Early Provision Merge Create Running ListenFailed Listening]:
  assumes run: "CreateWCOW_body env opts uvm files = (res, files', evs)"
  obtains
    (Early) f where "res = Inl f"
      "submitted evs = []" "created evs = []" "listens evs = []" "closes evs = []"
      "cloneCalls evs = []" "scratchCreations evs = []"
  | (Provision) f uvmFolder sf files1 evs1 uvm1 doc evs2 where
      "res = Inl f"
      "getScratchFolder env opts files = (Inr sf, files1, evs1)"
      "prepareConfigDoc env uvm opts uvmFolder = Inr (uvm1, doc)"
      "provision env opts uvm1 doc uvmFolder sf files1 = (Inl f, files', evs2)"
      "evs = evs1 @ evs2"
  | (Merge) err uvmFolder sf files1 evs1 uvm1 doc uvm2 doc2 evs2 where
      "getScratchFolder env opts files = (Inr sf, files1, evs1)"
      "prepareConfigDoc env uvm opts uvmFolder = Inr (uvm1, doc)"
      "provision env opts uvm1 doc uvmFolder sf files1 = (Inr (uvm2, doc2), files', evs2)"
      "MergeJSON env (saveableShares env opts uvm2 doc2) (AdditionHCSDocumentJSON opts) = Inl err"
      "res = Inl (Error (''failed to merge additional JSON '' @ [CHR 0x27]
                        @ AdditionHCSDocumentJSON opts @ [CHR 0x27] @ '': '' @ err))"
      "evs = evs1 @ evs2"
  | (Create) err fullDoc uvmFolder sf files1 evs1 uvm1 doc uvm2 doc2 evs2 where
      "getScratchFolder env opts files = (Inr sf, files1, evs1)"
      "prepareConfigDoc env uvm opts uvmFolder = Inr (uvm1, doc)"
      "provision env opts uvm1 doc uvmFolder sf files1 = (Inr (uvm2, doc2), files', evs2)"
      "MergeJSON env (saveableShares env opts uvm2 doc2) (AdditionHCSDocumentJSON opts) = Inr fullDoc"
      "create env (uvm_id uvm2) fullDoc = Inl err"
      "res = Inl (Error (''error while creating the compute system: '' @ err))"
      "evs = evs1 @ evs2 @ [EvCreate (uvm_id uvm2) fullDoc (Inl err)]"
  | (Running) rid fullDoc uvmFolder sf files1 evs1 uvm1 doc uvm2 doc2 evs2 where
      "getScratchFolder env opts files = (Inr sf, files1, evs1)"
      "prepareConfigDoc env uvm opts uvmFolder = Inr (uvm1, doc)"
      "provision env opts uvm1 doc uvmFolder sf files1 = (Inr (uvm2, doc2), files', evs2)"
      "MergeJSON env (saveableShares env opts uvm2 doc2) (AdditionHCSDocumentJSON opts) = Inr fullDoc"
      "create env (uvm_id uvm2) fullDoc = Inr rid"
      "\<not> ExternalGuestConnection opts" "\<not> IsClone opts"
      "res = Inr (uvm2\<lparr>runtimeID := rid\<rparr>)"
      "evs = evs1 @ evs2 @ [EvCreate (uvm_id uvm2) fullDoc (Inr rid)]"
  | (ListenFailed) err rid fullDoc uvmFolder sf files1 evs1 uvm1 doc uvm2 doc2 evs2 where
      "getScratchFolder env opts files = (Inr sf, files1, evs1)"
      "prepareConfigDoc env uvm opts uvmFolder = Inr (uvm1, doc)"
      "provision env opts uvm1 doc uvmFolder sf files1 = (Inr (uvm2, doc2), files', evs2)"
      "MergeJSON env (saveableShares env opts uvm2 doc2) (AdditionHCSDocumentJSON opts) = Inr fullDoc"
      "create env (uvm_id uvm2) fullDoc = Inr rid"
      "ExternalGuestConnection opts \<or> IsClone opts"
      "ListenHvsock env rid (WindowsGcsHvsockServiceID env) = Some err"
      "res = Inl (Error err)"
      "evs = evs1 @ evs2 @ [EvCreate (uvm_id uvm2) fullDoc (Inr rid),
                            EvListenHvsock rid (WindowsGcsHvsockServiceID env) (Some err)]"
  | (Listening) rid fullDoc uvmFolder sf files1 evs1 uvm1 doc uvm2 doc2 evs2 where
      "getScratchFolder env opts files = (Inr sf, files1, evs1)"
      "prepareConfigDoc env uvm opts uvmFolder = Inr (uvm1, doc)"
      "provision env opts uvm1 doc uvmFolder sf files1 = (Inr (uvm2, doc2), files', evs2)"
      "MergeJSON env (saveableShares env opts uvm2 doc2) (AdditionHCSDocumentJSON opts) = Inr fullDoc"
      "create env (uvm_id uvm2) fullDoc = Inr rid"
      "ExternalGuestConnection opts \<or> IsClone opts"
      "ListenHvsock env rid (WindowsGcsHvsockServiceID env) = None"
      "res = Inr (uvm2\<lparr>runtimeID := rid,
                      gcListener := Some (HvsockListener rid (WindowsGcsHvsockServiceID env))\<rparr>)"
      "evs = evs1 @ evs2 @ [EvCreate (uvm_id uvm2) fullDoc (Inr rid),
                            EvListenHvsock rid (WindowsGcsHvsockServiceID env) None]"
proof (cases "verifyOptions env opts")
  case (Some err)
  with run show thesis
    by (intro Early) (auto simp: CreateWCOW_body_def)
next
  case v: None
  show thesis
  proof (cases "LocateUVMFolder env (LayerFolders opts)")
    case (Inl err)
    with run v show thesis
      by (intro Early) (auto simp: CreateWCOW_body_def)
  next
    case l: (Inr uvmFolder)
    obtain r1 files1 evs1 where g: "getScratchFolder env opts files = (r1, files1, evs1)"
      by (metis prod_cases3)
    note ge = getScratchFolder_events[OF g]
    show thesis
    proof (cases r1)
      case (Inl f)
      with run v l g ge show thesis
        by (intro Early) (auto simp: CreateWCOW_body_def)
    next
      case (Inr sf)
      note g' = g[unfolded Inr]
      show thesis
      proof (cases "prepareConfigDoc env uvm opts uvmFolder")
        case (Inl err)
        with run v l g' ge show thesis
          by (intro Early) (auto simp: CreateWCOW_body_def)
      next
        case pr: (Inr ud)
        obtain uvm1 doc where ud: "ud = (uvm1, doc)" by (cases ud)
        note p = pr[unfolded ud]
        obtain r2 files2 evs2 where
          b: "provision env opts uvm1 doc uvmFolder sf files1 = (r2, files2, evs2)"
          by (metis prod_cases3)
        show thesis
        proof (cases r2)
          case (Inl f)
          with run v l g' p b show thesis
            by (intro Provision[of f sf files1 evs1 uvmFolder uvm1 doc evs2])
               (auto simp: CreateWCOW_body_def)
        next
          case r2: (Inr ud2)
          obtain uvm2 doc2 where ud2: "ud2 = (uvm2, doc2)" by (cases ud2)
          note b' = b[unfolded r2 ud2]
          show thesis
          proof (cases "MergeJSON env (saveableShares env opts uvm2 doc2) (AdditionHCSDocumentJSON opts)")
            case (Inl err)
            with run v l g' p b' show thesis
              by (intro Merge[of sf files1 evs1 uvmFolder uvm1 doc uvm2 doc2 evs2 err])
                 (auto simp: CreateWCOW_body_def)
          next
            case m: (Inr fullDoc)
            show thesis
            proof (cases "create env (uvm_id uvm2) fullDoc")
              case (Inl err)
              with run v l g' p b' m show thesis
                by (intro Create[of sf files1 evs1 uvmFolder uvm1 doc uvm2 doc2 evs2 fullDoc err])
                   (auto simp: CreateWCOW_body_def uvm_create_def)
            next
              case c: (Inr rid)
              show thesis
              proof (cases "ExternalGuestConnection opts \<or> IsClone opts")
                case False
                with run v l g' p b' m c show thesis
                  by (intro Running[of sf files1 evs1 uvmFolder uvm1 doc uvm2 doc2 evs2 fullDoc rid])
                     (auto simp: CreateWCOW_body_def uvm_create_def)
              next
                case True
                show thesis
                proof (cases "ListenHvsock env rid (WindowsGcsHvsockServiceID env)")
                  case (Some err)
                  with run v l g' p b' m c True show thesis
                    by (intro ListenFailed[of sf files1 evs1 uvmFolder uvm1 doc uvm2 doc2 evs2 fullDoc rid err])
                       (auto simp: CreateWCOW_body_def uvm_create_def startExternalGcsListener_def)
                next
                  case None
                  with run v l g' p b' m c True show thesis
                    by (intro Listening[of sf files1 evs1 uvmFolder uvm1 doc uvm2 doc2 evs2 fullDoc rid])
                       (auto simp: CreateWCOW_body_def uvm_create_def startExternalGcsListener_def)
                qed
              qed
            qed
          qed
        qed
      qed
    qed
  qed
qed

lemma CreateWCOW_cases [consumes 1, case_names NoID Body]:
  assumes run: "CreateWCOW env opts files = (res, files', evs)"
  obtains
    (NoID) err where "ID opts = []" "NewV4 env = Inl err" "res = Inl (Error err)" "evs = []"
      "files' = files"
  | (Body) newID evsB where
      "(if ID opts = [] then NewV4 env else Inr (ID opts)) = Inr newID"
      "CreateWCOW_body env (opts\<lparr>ID := newID\<rparr>) (newUtilityVM (opts\<lparr>ID := newID\<rparr>)) files
         = (res, files', evsB)"
      "evs = evsB @ (case res of Inl (Error e) \<Rightarrow> [EvClose newID] | _ \<Rightarrow> [])"
proof (cases "if ID opts = [] then NewV4 env else Inr (ID opts)")
  case (Inl err)
  with run show thesis
    by (intro NoID[of err]) (auto simp: CreateWCOW_def split: if_splits)
next
  case (Inr newID)
  obtain r f e where
    b: "CreateWCOW_body env (opts\<lparr>ID := newID\<rparr>) (newUtilityVM (opts\<lparr>ID := newID\<rparr>)) files
          = (r, f, e)"
    by (metis prod_cases3)
  have id: "uvm_id (newUtilityVM (opts\<lparr>ID := newID\<rparr>)) = newID"
    by (simp add: newUtilityVM_def)
  from run Inr b id have "res = r" "files' = f"
    "evs = e @ (case r of Inl (Error e) \<Rightarrow> [EvClose newID] | _ \<Rightarrow> [])"
    by (auto simp: CreateWCOW_def Let_def split: sum.splits failure.splits)
  with Inr b show thesis
    by (intro Body[of newID e]) auto
qed

subsection \<open>Runs on the example host\<close>

lemmas run_defs =
  CreateWCOW_def CreateWCOW_body_def newUtilityVM_def provision_def saveableShares_def
  getScratchFolder_def os_IsNotExist_def os_Stat_def os_MkdirAll_def prepareConfigDoc_def
  normalizeProcessorCount_def createScratch_def cloneFromTemplate_def wcow_CreateUVMScratch_def
  MergeJSON_def uvm_create_def startExternalGcsListener_def env_ok_def opts_ok_def
  opts_clone_def Let_def

lemma run_fresh:
  "\<exists>u f d.
     CreateWCOW env_ok opts_ok {} =
       (Inr u, f,
        [EvMkdirAll ''scratchDir'' None,
         EvCreateUVMScratch ''layer1'' ''scratchDir'' ''vm1'' None,
         EvCreate ''vm1'' d (Inr ''rt-vm1'')])"
  by (simp add: run_defs)

lemma run_clone_a:
  "\<exists>u f d.
     CreateWCOW env_ok (opts_clone [''a'']) {} =
       (Inr u, f,
        [EvMkdirAll ''scratchDir'' None, EvClone ''a'' None,
         EvCreate ''vm1'' d (Inr ''rt-vm1''),
         EvListenHvsock ''rt-vm1'' ''acef5661-84a1-4e44-856b-6245e69f4620'' None])"
  by (simp add: run_defs)


lemma env_ok_keeps:
  "cloneKeepsSlot00 env_ok r" "cloneKeepsGuestConnection env_ok r"
  by (simp_all add: cloneKeepsSlot00_def cloneKeepsGuestConnection_def env_ok_def)

lemmas text_defs = text_extraDisk_def text_noVM_def text_memory_def quoted_def


lemma run_clone_memory:
  "\<exists>u f d.
     CreateWCOW env_ok ((opts_clone [''a''])\<lparr>AdditionHCSDocumentJSON := text_memory\<rparr>) {} =
       (Inr u, f,
        [EvMkdirAll ''scratchDir'' None, EvClone ''a'' None,
         EvCreate ''vm1'' d (Inr ''rt-vm1''),
         EvListenHvsock ''rt-vm1'' ''acef5661-84a1-4e44-856b-6245e69f4620'' None])"
  by (simp add: run_defs text_defs)

lemma memory_fragment_leaves:
  "overrideLeavesPath env_ok [''VirtualMachine'', ''Devices'', ''Scsi''] text_memory"
  "overrideLeavesPath env_ok [''VirtualMachine'', ''GuestConnection''] text_memory"
  "overrideKeepsObjects env_ok [''VirtualMachine'', ''GuestConnection''] text_memory"
  by (simp_all add: overrideLeavesPath_def overrideKeepsObjects_def env_ok_def text_defs
      json_memory_def)

section \<open>Utility VM creation: properties\<close>




text \<open>
  C2. Once the host service has created the VM with runtime id \<open>rid\<close>, a run of
  \<^verbatim>\<open>CreateWCOW\<close> opens exactly one listener, bound to \<open>rid\<close> and to
  \<^verbatim>\<open>gcs.WindowsGcsHvsockServiceID\<close>, when the run is a clone or
  \<open>ExternalGuestConnection\<close> is set, and opens none otherwise; a handle that is returned
  holds that listener, or none.
\<close>

theorem CreateWCOW_listener:
  assumes run: "CreateWCOW env opts files = (res, files', evs)"
    and sub: "rid \<in> set (created evs)"
  shows "listens evs =
           (if ExternalGuestConnection opts \<or> IsClone opts
            then [(rid, WindowsGcsHvsockServiceID env)] else []) \<and>
         (\<forall>running. res = Inr running \<longrightarrow>
            gcListener running =
              (if ExternalGuestConnection opts \<or> IsClone opts
               then Some (HvsockListener rid (WindowsGcsHvsockServiceID env)) else None))"
  using run
proof (cases rule: CreateWCOW_cases)
  case (NoID err)
  with sub show ?thesis by simp
next
  case (Body newID evsB)
  from Body(3) sub have sub': "rid \<in> set (created evsB)"
    by (simp add: reads_append)
  have l: "listens evs = listens evsB"
    using Body(3) by (simp add: reads_append)
  from Body(2) show ?thesis
  proof (cases rule: CreateWCOW_body_cases)
    case (Early f)
    with sub' show ?thesis by simp
  next
    case (Provision f uvmFolder sf files1 evs1 uvm1 doc evs2)
    with sub' getScratchFolder_events[OF Provision(2)] provision_reads[OF Provision(4)]
    show ?thesis by (simp add: reads_append)
  next
    case (Merge err uvmFolder sf files1 evs1 uvm1 doc uvm2 doc2 evs2)
    with sub' getScratchFolder_events[OF Merge(1)] provision_reads[OF Merge(3)]
    show ?thesis by (simp add: reads_append)
  next
    case (Create err fullDoc uvmFolder sf files1 evs1 uvm1 doc uvm2 doc2 evs2)
    with sub' getScratchFolder_events[OF Create(1)] provision_reads[OF Create(3)]
    show ?thesis by (simp add: reads_append)
  next
    case (Running rid' fullDoc uvmFolder sf files1 evs1 uvm1 doc uvm2 doc2 evs2)
    from Running(3,7) have cs: "createScratch env uvm1 doc uvmFolder sf files1 = (Inr (uvm2, doc2), files', evs2)"
      by (simp add: provision_def)
    have "gcListener uvm2 = None"
      using createScratch_Inr(3)[OF cs] prepareConfigDoc_Inr(4)[OF Running(2)]
      by (simp add: newUtilityVM_def)
    with Running sub' l getScratchFolder_events[OF Running(1)] provision_reads[OF Running(3)]
    show ?thesis by (simp add: reads_append)
  next
    case (ListenFailed err rid' fullDoc uvmFolder sf files1 evs1 uvm1 doc uvm2 doc2 evs2)
    with sub' l getScratchFolder_events[OF ListenFailed(1)] provision_reads[OF ListenFailed(3)]
    show ?thesis by (auto simp add: reads_append)
  next
    case (Listening rid' fullDoc uvmFolder sf files1 evs1 uvm1 doc uvm2 doc2 evs2)
    with sub' l getScratchFolder_events[OF Listening(1)] provision_reads[OF Listening(3)]
    show ?thesis by (auto simp add: reads_append)
  qed
qed

theorem CreateWCOW_listener_witness:
  "''rt-vm1'' \<in> set (created (snd (snd (CreateWCOW env_ok (opts_clone [''a'']) {})))) \<and>
   \<not> ExternalGuestConnection (opts_clone [''a'']) \<and>
   listens (snd (snd (CreateWCOW env_ok (opts_clone [''a'']) {}))) =
     [(''rt-vm1'', ''acef5661-84a1-4e44-856b-6245e69f4620'')] \<and>
   gcListener (projr (fst (CreateWCOW env_ok (opts_clone [''a'']) {}))) =
     Some (HvsockListener ''rt-vm1'' ''acef5661-84a1-4e44-856b-6245e69f4620'') \<and>
   ''rt-vm1'' \<in> set (created (snd (snd (CreateWCOW env_ok opts_ok {})))) \<and>
   listens (snd (snd (CreateWCOW env_ok opts_ok {}))) = [] \<and>
   gcListener (projr (fst (CreateWCOW env_ok opts_ok {}))) = None"
proof -
  from run_fresh obtain u f d where
    r: "CreateWCOW env_ok opts_ok {} =
       (Inr u, f,
        [EvMkdirAll ''scratchDir'' None,
         EvCreateUVMScratch ''layer1'' ''scratchDir'' ''vm1'' None,
         EvCreate ''vm1'' d (Inr ''rt-vm1'')])"
    by blast
  from run_clone_a obtain u' f' d' where
    r': "CreateWCOW env_ok (opts_clone [''a'']) {} =
       (Inr u', f',
        [EvMkdirAll ''scratchDir'' None, EvClone ''a'' None,
         EvCreate ''vm1'' d' (Inr ''rt-vm1''),
         EvListenHvsock ''rt-vm1'' ''acef5661-84a1-4e44-856b-6245e69f4620'' None])"
    by blast
  have o: "\<not> ExternalGuestConnection opts_ok" "\<not> IsClone opts_ok"
    "\<not> ExternalGuestConnection (opts_clone [''a''])" "IsClone (opts_clone [''a''])"
    "WindowsGcsHvsockServiceID env_ok = ''acef5661-84a1-4e44-856b-6245e69f4620''"
    by (simp_all add: opts_ok_def opts_clone_def env_ok_def)
  from CreateWCOW_listener[OF r, of "''rt-vm1''"] CreateWCOW_listener[OF r', of "''rt-vm1''"] o
  show ?thesis
    by (simp add: r r')
qed



text \<open>
  C5. With \<^verbatim>\<open>normalizeProcessorCount\<close> as the spec describes it: when the requested
  processor count is greater than the host's logical processor count,
  \<^verbatim>\<open>prepareConfigDoc\<close> does not fail, and both the handle's processor count and the
  count in the document's processor block are the host's count.
\<close>

theorem prepareConfigDoc_clamps:
  assumes "hostProcessorInfo env = Inr topology"
    and "LogicalProcessorCount topology <s ProcessorCount opts"
  shows "\<exists>uvm1 doc.
           prepareConfigDoc env uvm opts uvmFolder = Inr (uvm1, doc) \<and>
           processorCount uvm1 = LogicalProcessorCount topology \<and>
           Count (Processor (ComputeTopology (VirtualMachine doc))) = LogicalProcessorCount topology"
  using assms
  by (simp add: prepareConfigDoc_def normalizeProcessorCount_def Let_def)

theorem prepareConfigDoc_clamps_witness:
  "ProcessorCount opts_ok = 64 \<and>
   (\<exists>uvm1 doc.
      prepareConfigDoc env_ok uvm_new opts_ok ''layer1'' = Inr (uvm1, doc) \<and>
      processorCount uvm1 = 4 \<and>
      Count (Processor (ComputeTopology (VirtualMachine doc))) = 4)"
proof -
  have h: "hostProcessorInfo env_ok = Inr \<lparr>LogicalProcessorCount = 4\<rparr>"
    by (simp add: env_ok_def)
  have c: "LogicalProcessorCount \<lparr>LogicalProcessorCount = 4\<rparr> <s ProcessorCount opts_ok"
    by (simp add: opts_ok_def word_sless_alt)
  from prepareConfigDoc_clamps[OF h c, of uvm_new "''layer1''"] show ?thesis
    by (simp add: opts_ok_def)
qed

text \<open>
  C7. Ensuring the scratch folder (\<^verbatim>\<open>getScratchFolder\<close>) and then the scratch disk (the
  fresh branch of \<^verbatim>\<open>CreateWCOW\<close>) is idempotent: after a first pass without error, a
  second pass on the files the first one left returns the same results without error,
  changes no file and creates nothing. A folder that exists is never created again,
  and a \<^verbatim>\<open>sandbox.vhdx\<close> that exists is never created again.
\<close>

theorem scratch_provisioning_idempotent:
  "(getScratchFolder env opts files = (Inr sf, files1, evs1) \<and>
    createScratch env uvm doc uvmFolder sf files1 = (Inr (uvm1, doc1), files2, evs2) \<longrightarrow>
      getScratchFolder env opts files2 = (Inr sf, files2, []) \<and>
      createScratch env uvm doc uvmFolder sf files2 = (Inr (uvm1, doc1), files2, [])) \<and>
   (LayerFolders opts \<noteq> [] \<and> last (LayerFolders opts) \<in> files \<longrightarrow>
      getScratchFolder env opts files = (Inr (last (LayerFolders opts)), files, [])) \<and>
   (filepath_Join env sf ''sandbox.vhdx'' \<in> files \<longrightarrow>
      \<not> isl (fst (createScratch env uvm doc uvmFolder sf files)) \<and>
      snd (createScratch env uvm doc uvmFolder sf files) = (files, []))"
proof (intro conjI impI)
  assume a: "getScratchFolder env opts files = (Inr sf, files1, evs1) \<and>
    createScratch env uvm doc uvmFolder sf files1 = (Inr (uvm1, doc1), files2, evs2)"
  then have g: "getScratchFolder env opts files = (Inr sf, files1, evs1)"
    and c: "createScratch env uvm doc uvmFolder sf files1 = (Inr (uvm1, doc1), files2, evs2)"
    by simp_all
  from g have sf: "sf = last (LayerFolders opts)" "LayerFolders opts \<noteq> []"
    and f1: "Stat_error env sf \<or> sf \<in> files1"
    by (auto simp: getScratchFolder_def os_MkdirAll_def os_Stat_def os_IsNotExist_def Let_def
        split: list.splits if_splits option.splits)
  from c have f2: "files1 \<subseteq> files2"
    and p: "Stat_error env (filepath_Join env sf ''sandbox.vhdx'') \<or>
            filepath_Join env sf ''sandbox.vhdx'' \<in> files2"
    by (auto simp: createScratch_def wcow_CreateUVMScratch_def os_Stat_def os_IsNotExist_def
        Let_def split: if_splits option.splits)
  from sf f1 f2 show "getScratchFolder env opts files2 = (Inr sf, files2, [])"
    by (auto simp: getScratchFolder_def os_Stat_def os_IsNotExist_def Let_def
        split: list.splits)
  from createScratch_Inr[OF c] p
  show "createScratch env uvm doc uvmFolder sf files2 = (Inr (uvm1, doc1), files2, [])"
    by (auto simp: createScratch_def os_Stat_def os_IsNotExist_def Let_def)
next
  assume "LayerFolders opts \<noteq> [] \<and> last (LayerFolders opts) \<in> files"
  then show "getScratchFolder env opts files = (Inr (last (LayerFolders opts)), files, [])"
    by (auto simp: getScratchFolder_def os_Stat_def os_IsNotExist_def Let_def
        split: list.splits)
next
  assume "filepath_Join env sf ''sandbox.vhdx'' \<in> files"
  then show "\<not> isl (fst (createScratch env uvm doc uvmFolder sf files))"
    and "snd (createScratch env uvm doc uvmFolder sf files) = (files, [])"
    by (auto simp: createScratch_def os_Stat_def os_IsNotExist_def Let_def)
qed

theorem scratch_provisioning_idempotent_witness:
  "getScratchFolder env_ok opts_ok {} =
     (Inr ''scratchDir'', {''scratchDir''}, [EvMkdirAll ''scratchDir'' None]) \<and>
   snd (createScratch env_ok uvm_new doc_ok ''layer1'' ''scratchDir'' {''scratchDir''}) =
     ({''scratchDir'' @ [backslash] @ ''sandbox.vhdx'', ''scratchDir''},
      [EvCreateUVMScratch ''layer1'' ''scratchDir'' ''vm1'' None]) \<and>
   getScratchFolder env_ok opts_ok {''scratchDir'' @ [backslash] @ ''sandbox.vhdx'', ''scratchDir''} =
     (Inr ''scratchDir'', {''scratchDir'' @ [backslash] @ ''sandbox.vhdx'', ''scratchDir''}, []) \<and>
   snd (createScratch env_ok uvm_new doc_ok ''layer1'' ''scratchDir''
          {''scratchDir'' @ [backslash] @ ''sandbox.vhdx'', ''scratchDir''}) =
     ({''scratchDir'' @ [backslash] @ ''sandbox.vhdx'', ''scratchDir''}, [])"
proof -
  have g: "getScratchFolder env_ok opts_ok {} =
     (Inr ''scratchDir'', {''scratchDir''}, [EvMkdirAll ''scratchDir'' None])"
    by (simp add: getScratchFolder_def os_IsNotExist_def os_Stat_def os_MkdirAll_def env_ok_def
        opts_ok_def Let_def)
  obtain u1 d1 where
    c: "createScratch env_ok uvm_new doc_ok ''layer1'' ''scratchDir'' {''scratchDir''} =
          (Inr (u1, d1), {''scratchDir'' @ [backslash] @ ''sandbox.vhdx'', ''scratchDir''},
           [EvCreateUVMScratch ''layer1'' ''scratchDir'' ''vm1'' None])"
    by (simp add: createScratch_def wcow_CreateUVMScratch_def os_IsNotExist_def os_Stat_def
        env_ok_def uvm_new_def backslash_def Let_def)
  from scratch_provisioning_idempotent[of env_ok opts_ok "{}" "''scratchDir''" "{''scratchDir''}"
      "[EvMkdirAll ''scratchDir'' None]" uvm_new doc_ok "''layer1''" u1 d1
      "{''scratchDir'' @ [backslash] @ ''sandbox.vhdx'', ''scratchDir''}"
      "[EvCreateUVMScratch ''layer1'' ''scratchDir'' ''vm1'' None]"] g c
  show ?thesis by simp
qed

text \<open>
  C8. With the override merge as the spec describes it: merging an empty fragment into a
  built document gives the document's JSON form unchanged (for the empty text and for
  the empty object), and merging a fragment whose top-level keys are all new keeps every
  field of the document, in place, with the new fields after them.
\<close>

theorem MergeJSON_empty_and_new_keys:
  "MergeJSON env d [] = Inr (marshalDoc d) \<and>
   Merge (JObj kvs) (JObj []) = JObj kvs \<and>
   (fst ` set f \<inter> fst ` set kvs = {} \<longrightarrow>
      (\<exists>added. Merge (JObj kvs) (JObj f) = JObj (kvs @ added)))"
proof (intro conjI impI)
  show "MergeJSON env d [] = Inr (marshalDoc d)"
    by (simp add: MergeJSON_def)
  show "Merge (JObj kvs) (JObj []) = JObj kvs"
    by simp
  assume k: "fst ` set f \<inter> fst ` set kvs = {}"
  from MergeFields_keeps_prefix[OF k, of "[]"]
  show "\<exists>added. Merge (JObj kvs) (JObj f) = JObj (kvs @ added)"
    by simp
qed

theorem MergeJSON_empty_and_new_keys_witness:
  "MergeJSON env_ok doc_ok [] = Inr (marshalDoc doc_ok) \<and>
   Merge (JObj [(''Owner'', JStr ''test'')]) (JObj []) = JObj [(''Owner'', JStr ''test'')] \<and>
   fst ` set [(''Extra'', JNum 1)] \<inter> fst ` set [(''Owner'', JStr ''test'')] = {} \<and>
   (\<exists>added. Merge (JObj [(''Owner'', JStr ''test'')]) (JObj [(''Extra'', JNum 1)])
              = JObj ([(''Owner'', JStr ''test'')] @ added))"
proof -
  have k: "fst ` set [(''Extra'', JNum 1)] \<inter> fst ` set [(''Owner'', JStr ''test'')] = {}"
    by simp
  from MergeJSON_empty_and_new_keys[of env_ok doc_ok "[(''Owner'', JStr ''test'')]"
      "[(''Extra'', JNum 1)]"] k
  show ?thesis by blast
qed

text \<open>
  C9. As amended. The document \<^verbatim>\<open>prepareConfigDoc\<close> builds has a storage-QoS block exactly
  when the requested bandwidth maximum or the requested IOPS maximum is greater than
  zero (both are signed 32-bit values), and the block then carries exactly the two
  requested maxima.
\<close>

theorem prepareConfigDoc_StorageQoS:
  assumes "prepareConfigDoc env uvm opts uvmFolder = Inr (uvm1, doc)"
  shows "StorageQoS (VirtualMachine doc)
           = (if 0 <s StorageQoSBandwidthMaximum opts \<or> 0 <s StorageQoSIopsMaximum opts
              then Some \<lparr> IopsMaximum = StorageQoSIopsMaximum opts,
                          BandwidthMaximum = StorageQoSBandwidthMaximum opts \<rparr>
              else None)"
  using assms
  by (auto simp: prepareConfigDoc_def Let_def split: sum.splits)

theorem prepareConfigDoc_StorageQoS_witness:
  "StorageQoS (VirtualMachine (snd (projr
      (prepareConfigDoc env_ok uvm_new (opts_ok\<lparr>StorageQoSIopsMaximum := 500\<rparr>) ''layer1''))))
     = Some \<lparr>IopsMaximum = 500, BandwidthMaximum = 0\<rparr>"
proof -
  obtain uvm1 doc where
    r: "prepareConfigDoc env_ok uvm_new (opts_ok\<lparr>StorageQoSIopsMaximum := 500\<rparr>) ''layer1''
          = Inr (uvm1, doc)"
    by (simp add: prepareConfigDoc_def env_ok_def Let_def)
  from prepareConfigDoc_StorageQoS[OF r] r show ?thesis
    by (simp add: opts_ok_def word_sless_alt)
qed

text \<open>
  The claim as first stated (a block whenever a maximum is not zero) fails for a
  negative maximum: with an IOPS maximum of -1 and a bandwidth maximum of 0 the
  document has no storage-QoS block.
\<close>

theorem prepareConfigDoc_StorageQoS_negative_counterexample:
  "StorageQoSIopsMaximum (opts_ok\<lparr>StorageQoSIopsMaximum := - 1\<rparr>) \<noteq> 0 \<and>
   \<not> isl (prepareConfigDoc env_ok uvm_new (opts_ok\<lparr>StorageQoSIopsMaximum := - 1\<rparr>) ''layer1'') \<and>
   StorageQoS (VirtualMachine (snd (projr
      (prepareConfigDoc env_ok uvm_new (opts_ok\<lparr>StorageQoSIopsMaximum := - 1\<rparr>) ''layer1''))))
     = None"
  by (simp add: prepareConfigDoc_def env_ok_def opts_ok_def Let_def word_sless_alt)

text \<open>
  C10. As amended. In a run of \<^verbatim>\<open>CreateWCOW\<close> with \<open>ExternalGuestConnection\<close> false, clone
  or not, whose replayed resources leave the marker of the document alone, every
  document submitted to the host service is a built document that has the
  guest-connection marker, merged with the override fragment. When the fragment is
  empty or holds only objects along \<open>VirtualMachine/GuestConnection\<close>, the submitted
  document has an object there (the marker); when it holds nothing there, the marker
  is as built. In a clone run the listener is opened as well once the VM is created.
\<close>

theorem CreateWCOW_guest_connection_marker:
  assumes run: "CreateWCOW env opts files = (res, files', evs)"
    and ext: "\<not> ExternalGuestConnection opts"
    and keep: "\<forall>tc. TemplateConfig opts = Some tc \<longrightarrow>
                 (\<forall>r\<in>set (Resources tc). cloneKeepsGuestConnection env r)"
  shows "(\<forall>d\<in>set (submitted evs).
            \<exists>doc.
              MergeJSON env doc (AdditionHCSDocumentJSON opts) = Inr d \<and>
              GuestConnection (VirtualMachine doc) = Some \<lparr>GuestConnection_unused = ()\<rparr> \<and>
              jsonGet [''VirtualMachine'', ''GuestConnection''] (marshalDoc doc) = Some (JObj []) \<and>
              (overrideKeepsObjects env [''VirtualMachine'', ''GuestConnection'']
                 (AdditionHCSDocumentJSON opts) \<longrightarrow>
               isObject (jsonGet [''VirtualMachine'', ''GuestConnection''] d)) \<and>
              (overrideLeavesPath env [''VirtualMachine'', ''GuestConnection'']
                 (AdditionHCSDocumentJSON opts) \<longrightarrow>
               jsonGet [''VirtualMachine'', ''GuestConnection''] d = Some (JObj []))) \<and>
         (IsClone opts \<longrightarrow>
            (\<forall>rid\<in>set (created evs). listens evs = [(rid, WindowsGcsHvsockServiceID env)]))"
  using run
proof (cases rule: CreateWCOW_cases)
  case (NoID err)
  then show ?thesis by simp
next
  case (Body newID evsB)
  let ?opts = "opts\<lparr>ID := newID\<rparr>"
  let ?path = "[''VirtualMachine'', ''GuestConnection'']"
  have s: "submitted evs = submitted evsB" "created evs = created evsB"
    "listens evs = listens evsB"
    using Body(3) by (simp_all add: reads_append)
  have keep': "\<forall>tc. TemplateConfig ?opts = Some tc \<longrightarrow>
                 (\<forall>r\<in>set (Resources tc). cloneKeepsGuestConnection env r)"
    using keep by simp
  have marker: "\<exists>doc.
              MergeJSON env doc (AdditionHCSDocumentJSON opts) = Inr fullDoc \<and>
              GuestConnection (VirtualMachine doc) = Some \<lparr>GuestConnection_unused = ()\<rparr> \<and>
              jsonGet ?path (marshalDoc doc) = Some (JObj []) \<and>
              (overrideKeepsObjects env ?path (AdditionHCSDocumentJSON opts) \<longrightarrow>
               isObject (jsonGet ?path fullDoc)) \<and>
              (overrideLeavesPath env ?path (AdditionHCSDocumentJSON opts) \<longrightarrow>
               jsonGet ?path fullDoc = Some (JObj []))"
    if p: "prepareConfigDoc env (newUtilityVM ?opts) ?opts uvmFolder = Inr (uvm1, doc0)"
      and b: "provision env ?opts uvm1 doc0 uvmFolder sf files1 = (Inr (uvm2, doc2), files', evs2)"
      and m: "MergeJSON env (saveableShares env ?opts uvm2 doc2) (AdditionHCSDocumentJSON ?opts)
                = Inr fullDoc"
    for uvmFolder uvm1 doc0 sf files1 uvm2 doc2 evs2 fullDoc
  proof -
    let ?doc = "saveableShares env ?opts uvm2 doc2"
    have m': "MergeJSON env ?doc (AdditionHCSDocumentJSON opts) = Inr fullDoc"
      using m by simp
    have g: "GuestConnection (VirtualMachine ?doc) = Some \<lparr>GuestConnection_unused = ()\<rparr>"
      using provision_keeps_marker[OF b keep'] prepareConfigDoc_Inr(2)[OF p] ext
      by (simp add: saveableShares_keeps)
    have j: "jsonGet ?path (marshalDoc ?doc) = Some (JObj [])"
      using g by (simp add: jsonGet_GuestConnection)
    have o: "isObject (jsonGet ?path fullDoc)"
      if "overrideKeepsObjects env ?path (AdditionHCSDocumentJSON opts)"
      using MergeJSON_keepsObjects[OF that m'] j by simp
    have l: "jsonGet ?path fullDoc = Some (JObj [])"
      if "overrideLeavesPath env ?path (AdditionHCSDocumentJSON opts)"
      using MergeJSON_leavesPath[OF that m'] j by simp
    from m' g j o l show ?thesis by blast
  qed
  from Body(2) show ?thesis
  proof (cases rule: CreateWCOW_body_cases)
    case (Early f)
    with s show ?thesis by simp
  next
    case (Provision f uvmFolder sf files1 evs1 uvm1 doc evs2)
    with s getScratchFolder_events[OF Provision(2)] provision_reads[OF Provision(4)]
    show ?thesis by (simp add: reads_append)
  next
    case (Merge err uvmFolder sf files1 evs1 uvm1 doc uvm2 doc2 evs2)
    with s getScratchFolder_events[OF Merge(1)] provision_reads[OF Merge(3)]
    show ?thesis by (simp add: reads_append)
  next
    case (Create err fullDoc uvmFolder sf files1 evs1 uvm1 doc uvm2 doc2 evs2)
    have "submitted evs = [fullDoc]" "created evs = []"
      using s Create(7) getScratchFolder_events[OF Create(1)] provision_reads[OF Create(3)]
      by (simp_all add: reads_append)
    with marker[OF Create(2,3,4)] show ?thesis by simp
  next
    case (Running rid fullDoc uvmFolder sf files1 evs1 uvm1 doc uvm2 doc2 evs2)
    have "submitted evs = [fullDoc]" "\<not> IsClone opts"
      using s Running(7,9) getScratchFolder_events[OF Running(1)] provision_reads[OF Running(3)]
      by (simp_all add: reads_append)
    with marker[OF Running(2,3,4)] show ?thesis by simp
  next
    case (ListenFailed err rid fullDoc uvmFolder sf files1 evs1 uvm1 doc uvm2 doc2 evs2)
    have "submitted evs = [fullDoc]" "created evs = [rid]"
      "listens evs = [(rid, WindowsGcsHvsockServiceID env)]"
      using s ListenFailed(9) getScratchFolder_events[OF ListenFailed(1)]
        provision_reads[OF ListenFailed(3)]
      by (simp_all add: reads_append)
    with marker[OF ListenFailed(2,3,4)] show ?thesis by simp
  next
    case (Listening rid fullDoc uvmFolder sf files1 evs1 uvm1 doc uvm2 doc2 evs2)
    have "submitted evs = [fullDoc]" "created evs = [rid]"
      "listens evs = [(rid, WindowsGcsHvsockServiceID env)]"
      using s Listening(9) getScratchFolder_events[OF Listening(1)]
        provision_reads[OF Listening(3)]
      by (simp_all add: reads_append)
    with marker[OF Listening(2,3,4)] show ?thesis by simp
  qed
qed

theorem CreateWCOW_guest_connection_marker_witness:
  "\<not> ExternalGuestConnection ((opts_clone [''a''])\<lparr>AdditionHCSDocumentJSON := text_memory\<rparr>) \<and>
   overrideKeepsObjects env_ok [''VirtualMachine'', ''GuestConnection'']
     (AdditionHCSDocumentJSON ((opts_clone [''a''])\<lparr>AdditionHCSDocumentJSON := text_memory\<rparr>)) \<and>
   map (jsonGet [''VirtualMachine'', ''GuestConnection''])
     (submitted (snd (snd
        (CreateWCOW env_ok ((opts_clone [''a''])\<lparr>AdditionHCSDocumentJSON := text_memory\<rparr>) {}))))
     = [Some (JObj [])] \<and>
   listens (snd (snd
        (CreateWCOW env_ok ((opts_clone [''a''])\<lparr>AdditionHCSDocumentJSON := text_memory\<rparr>) {}))) =
     [(''rt-vm1'', ''acef5661-84a1-4e44-856b-6245e69f4620'')]"
proof -
  let ?opts = "(opts_clone [''a''])\<lparr>AdditionHCSDocumentJSON := text_memory\<rparr>"
  from run_clone_memory obtain u' f' d' where
    r': "CreateWCOW env_ok ?opts {} =
       (Inr u', f',
        [EvMkdirAll ''scratchDir'' None, EvClone ''a'' None,
         EvCreate ''vm1'' d' (Inr ''rt-vm1''),
         EvListenHvsock ''rt-vm1'' ''acef5661-84a1-4e44-856b-6245e69f4620'' None])"
    by blast
  have o: "\<not> ExternalGuestConnection ?opts"
    "overrideKeepsObjects env_ok [''VirtualMachine'', ''GuestConnection'']
       (AdditionHCSDocumentJSON ?opts)"
    "overrideLeavesPath env_ok [''VirtualMachine'', ''GuestConnection'']
       (AdditionHCSDocumentJSON ?opts)"
    "IsClone ?opts"
    "WindowsGcsHvsockServiceID env_ok = ''acef5661-84a1-4e44-856b-6245e69f4620''"
    using memory_fragment_leaves(2,3)
    by (simp_all add: opts_ok_def opts_clone_def env_ok_def)
  have k: "\<forall>tc. TemplateConfig ?opts = Some tc \<longrightarrow>
                 (\<forall>r\<in>set (Resources tc). cloneKeepsGuestConnection env_ok r)"
    by (simp add: env_ok_keeps)
  from CreateWCOW_guest_connection_marker[OF r' o(1) k] o
  show ?thesis
    by (auto simp: r')
qed

text \<open>
  The claim as first stated, for every run with \<open>ExternalGuestConnection\<close> false, fails
  when the override fragment replaces the \<open>VirtualMachine\<close> block by a number, and
  fails in a clone run with an empty fragment when a replayed resource removes the marker
  from the document: either way the submitted document has no guest-connection marker.
\<close>

theorem CreateWCOW_marker_dropped_counterexample:
  "\<not> ExternalGuestConnection (opts_ok\<lparr>AdditionHCSDocumentJSON := text_noVM\<rparr>) \<and>
   map (jsonGet [''VirtualMachine'', ''GuestConnection''])
     (submitted (snd (snd
        (CreateWCOW env_ok (opts_ok\<lparr>AdditionHCSDocumentJSON := text_noVM\<rparr>) {})))) = [None] \<and>
   \<not> ExternalGuestConnection (opts_clone [''a'']) \<and>
   AdditionHCSDocumentJSON (opts_clone [''a'']) = [] \<and>
   map (jsonGet [''VirtualMachine'', ''GuestConnection''])
     (submitted (snd (snd (CreateWCOW env_strip (opts_clone [''a'']) {})))) = [None]"
  by (simp add: run_defs env_strip_def text_defs marshalDoc_def marshalVirtualMachine_def)

end
